theory Spec2Isabelle
  imports Main "HOL-Library.Sublist"
begin

section \<open>Data model\<close>

text \<open>
  The values the workflow pages exchange. An object that may be \<open>null\<close> or
  \<open>undefined\<close> is an \<open>option\<close>; a field read through \<open>?.\<close> yields an
  \<open>option\<close> as well (\<open>None\<close> for \<open>undefined\<close>).
\<close>

record filing =
  accession_number :: string
  form_type :: string
  filing_date :: string

record company =
  ticker :: string
  company_name :: string

text \<open>
  \<open>secWorkflowData\<close> and \<open>selectionMetadata\<close> have the same shape:
  \<open>{ ticker, company_name, selected_filing }\<close>.
\<close>

record sec_selection = company +
  selected_filing :: "filing option"

datatype role = User | Assistant

record message =
  role :: role
  content :: string
  references :: "string option"
  isError :: bool
  timestamp :: string

type_synonym article = string

record analysis_data =
  ad_sessionId :: "string option"
  ad_executiveSummary :: string
  ad_newsArticles :: "article list"
  ad_chatMessages :: "message list"
  sourceType :: "string option"

text \<open>
  The upload form: three text fields and a year, which the form stores as
  \<open>parseInt(value)\<close> or \<open>''\<close>. \<open>None\<close> is an absent or empty field.
\<close>

record upload_metadata =
  companyName :: "string option"
  docTitle :: "string option"
  docType :: "string option"
  year :: "int option"

record upload_file =
  file_name :: string
  file_size :: nat

record upload_analysis_data =
  uad_sessionId :: "string option"
  uad_executiveSummary :: "string option"
  uad_newsArticles :: "article list option"
  uad_submittedMetadata :: "upload_metadata option"
  uad_submittedFileName :: "string option"

text \<open>
  The text of \<open>fileError\<close>: \<open>InvalidFileType\<close> is "Invalid file type. Please
  select a PDF or TXT file.", \<open>FileTooLarge n\<close> is "File size (... MB) exceeds
  the 10MB limit. Please select a smaller file." for a file of \<open>n\<close> bytes, and
  \<open>PleaseSelectFile\<close> is "Please select a file to upload.".
\<close>

datatype file_error = InvalidFileType | FileTooLarge nat | PleaseSelectFile

section \<open>Browser environment\<close>

text \<open>
  What JavaScript can throw in the code modelled here. \<open>Error m\<close> is
  \<open>new Error(m)\<close>; \<open>QuotaExceededError\<close> is what
  \<open>localStorage.setItem\<close> throws when the browser refuses the write.
\<close>

datatype exn = SyntaxError | TypeError | ReferenceError | QuotaExceededError | Error string

text \<open>
  What a call of \<open>localStorage.setItem\<close> does: it stores the text, or it
  throws \<open>QuotaExceededError\<close> and stores nothing. Which of the two
  happens is the browser's choice, so each write takes it as an argument.
  \<open>getItem\<close> and \<open>removeItem\<close> do not throw.
\<close>

datatype storage_write = Stored | QuotaExceeded

text \<open>
  A \<open>localStorage\<close> value is a text. A text is represented by what
  \<open>JSON.parse\<close> makes of it: \<open>Malformed t\<close> is the text \<open>t\<close>, which does not
  parse (the empty text included), and \<open>Json v\<close> is the text that
  \<open>JSON.stringify\<close> writes for \<open>v\<close> (\<open>Json None\<close> is the text \<open>null\<close>). Each key
  holds values of one shape; texts that parse to a value of another shape are
  not represented.
\<close>

datatype 'a stored = Malformed string | Json "'a option"

definition JSON_parse :: "'a stored \<Rightarrow> exn + 'a option" where
  "JSON_parse t = (case t of Malformed x \<Rightarrow> Inl SyntaxError | Json v \<Rightarrow> Inr v)"

definition JSON_stringify :: "'a option \<Rightarrow> 'a stored" where
  "JSON_stringify v = Json v"

text \<open>The empty string is the only text that is falsy.\<close>

definition truthy_text :: "'a stored \<Rightarrow> bool" where
  "truthy_text t = (t \<noteq> Malformed [])"

text \<open>The record written under \<open>finscope_active_session\<close>.\<close>

record session_record =
  sr_analysisData :: "analysis_data option"
  sr_selectionMetadata :: "sec_selection option"
  sr_secWorkflowData :: "sec_selection option"
  sr_timestamp :: string

text \<open>
  The calls to the backend: \<open>POST /api/start-analysis\<close> (ticker, companyName,
  filingId), \<open>POST /api/upload-analysis\<close> (file, companyName and the optional
  docTitle, docType, year of the form data), \<open>POST /api/chat\<close> (sessionId,
  userMessage), \<open>POST /api/end-session\<close> (sessionId) and
  \<open>GET /api/history/chat/{sessionId}\<close>.
\<close>

datatype request =
    StartAnalysis string string string
  | UploadAnalysis upload_file string "string option" "string option" "string option"
  | Chat string string
  | EndSession string
  | GetHistory string

text \<open>
  What a \<open>fetch\<close> comes back with: the promise rejects (\<open>Rejected m\<close>, an error
  with message \<open>m\<close>), or it resolves to a response with \<open>response.ok\<close> false
  (\<open>HttpNotOk status body\<close>) or true (\<open>HttpOk body\<close>). A body is what
  \<open>await response.json()\<close> gives: it throws (\<open>BadJson m\<close>) or returns a value.
  The body of a failed response is read for its \<open>error\<close> field only.
\<close>

datatype 'a body = BadJson string | JsonBody 'a

datatype 'a reply =
    Rejected string
  | HttpNotOk nat "string option body"
  | HttpOk "'a body"

record location_state =
  isUpload :: bool
  loc_sessionId :: "string option"

record conflict_data =
  existingTicker :: string
  currentTicker :: string
  currentFilingId :: string

text \<open>
  The state of the application: the values held by \<open>WorkflowProvider\<close>, the
  browser (the three \<open>localStorage\<close> keys, the requests sent so far, the alerts
  shown, the current route and its \<open>location.state\<close>), and the local state of
  the SEC search page, the upload page and the analysis page. A handler reads
  the state it was rendered with and queues updates; such a state transformer
  takes the state and returns the updated one. Presentation-only state
  (\<open>companyInfo\<close>, the loading teasers, the search box and the drag flag) is left
  out.
\<close>

record app =
  secWorkflowData :: "sec_selection option"
  analysisData :: "analysis_data option"
  selectionMetadata :: "sec_selection option"
  uploadMetadata :: "upload_metadata option"
  selectedUploadFile :: "upload_file option"
  uploadAnalysisData :: "upload_analysis_data option"
  analysisLoading :: bool
  finscope_active_session :: "session_record stored option"
  finscope_upload_meta :: "upload_metadata stored option"
  finscope_upload_data :: "upload_analysis_data stored option"
  requests :: "request list"
  alerts :: "string list"
  route :: string
  location_state :: "location_state option"
  selectedCompany :: "company option"
  selectedFiling :: "filing option"
  showConflictDialog :: bool
  conflictData :: "conflict_data option"
  submittedMetadata :: "upload_metadata option"
  submittedFileName :: "string option"
  showReplaceModal :: bool
  fileError :: "file_error option"
  isLoading :: bool
  loading :: bool
  error :: "string option"
  sessionId :: "string option"
  executiveSummary :: string
  newsArticles :: "article list"
  chatMessages :: "message list"
  userInput :: string
  sendingMessage :: bool
  showEndSessionDialog :: bool
  endingSession :: bool

text \<open>
  A run of statements that may throw part-way: the state reached, and the
  exception if one was thrown. Updates queued before the throw stay queued.
\<close>

datatype 'a outcome = Returns 'a | Throws exn 'a

fun then_do :: "'a outcome \<Rightarrow> ('a \<Rightarrow> 'a outcome) \<Rightarrow> 'a outcome" where
  "then_do (Returns s) f = f s"
| "then_do (Throws e s) f = Throws e s"

fun try_catch :: "'a outcome \<Rightarrow> (exn \<Rightarrow> 'a \<Rightarrow> 'a outcome) \<Rightarrow> 'a outcome" where
  "try_catch (Returns s) h = Returns s"
| "try_catch (Throws e s) h = h e s"

fun try_catch_value :: "exn + 'a \<Rightarrow> (exn \<Rightarrow> exn + 'a) \<Rightarrow> exn + 'a" where
  "try_catch_value (Inr v) h = Inr v"
| "try_catch_value (Inl e) h = h e"

section \<open>Strings\<close>

text \<open>
  \<open>toLowerCase\<close> on the letters A to Z; every other character is left as it
  is (no character outside A to Z lowers to a letter of \<open>.pdf\<close> or \<open>.txt\<close>).
\<close>

definition lower_char :: "char \<Rightarrow> char" where
  "lower_char c =
     (if 65 \<le> (of_char c :: nat) \<and> (of_char c :: nat) \<le> 90
      then char_of ((of_char c :: nat) + 32) else c)"

definition toLowerCase :: "string \<Rightarrow> string" where
  "toLowerCase s = map lower_char s"

text \<open>
  \<open>s.lastIndexOf(c)\<close>: the index of the last occurrence, \<open>-1\<close> when there is
  none. The scan carries the current index and the last match seen.
\<close>

fun lastIndexOf_from :: "string \<Rightarrow> char \<Rightarrow> nat \<Rightarrow> int \<Rightarrow> int" where
  "lastIndexOf_from [] c i found = found"
| "lastIndexOf_from (x # xs) c i found =
     lastIndexOf_from xs c (Suc i) (if x = c then int i else found)"

definition lastIndexOf :: "string \<Rightarrow> char \<Rightarrow> int" where
  "lastIndexOf s c = lastIndexOf_from s c 0 (- 1)"

text \<open>\<open>s.substring(i)\<close>: a negative start counts as 0.\<close>

definition substring :: "string \<Rightarrow> int \<Rightarrow> string" where
  "substring s i = drop (nat (max 0 i)) s"

text \<open>
  \<open>s.trim()\<close>. A character of a string is a code unit below 256; the white
  space and line terminators of JavaScript in that range are tab, line feed,
  vertical tab, form feed, carriage return, space and the no-break space
  U+00A0.
\<close>

definition is_whitespace :: "char \<Rightarrow> bool" where
  "is_whitespace c = ((of_char c :: nat) \<in> {9, 10, 11, 12, 13, 32, 160})"

definition trim :: "string \<Rightarrow> string" where
  "trim s = rev (dropWhile is_whitespace (rev (dropWhile is_whitespace s)))"

text \<open>\<open>String(n)\<close> for an integer \<open>n\<close>: its decimal digits.\<close>

fun string_of_nat :: "nat \<Rightarrow> string" where
  "string_of_nat n =
     (if n < 10 then [char_of (48 + n)]
      else string_of_nat (n div 10) @ [char_of (48 + n mod 10)])"

declare string_of_nat.simps [simp del]

definition string_of_int :: "int \<Rightarrow> string" where
  "string_of_int i =
     (if i < 0 then CHR ''-'' # string_of_nat (nat (- i)) else string_of_nat (nat i))"

text \<open>
  Truthiness of a string that may be absent, and \<open>x || ''\<close>.
\<close>

definition truthy :: "string option \<Rightarrow> bool" where
  "truthy x = (case x of None \<Rightarrow> False | Some t \<Rightarrow> t \<noteq> [])"

definition or_empty :: "string option \<Rightarrow> string" where
  "or_empty x = (case x of None \<Rightarrow> [] | Some t \<Rightarrow> t)"

section \<open>Upload page: file selection\<close>

definition allowedExtensions :: "string list" where
  "allowedExtensions = [''.pdf'', ''.txt'']"

definition fileExtension :: "upload_file \<Rightarrow> string" where
  "fileExtension f =
     (let fileName = toLowerCase (file_name f)
      in substring fileName (lastIndexOf fileName (CHR ''.'')))"

definition maxSize :: nat where
  "maxSize = 10 * 1024 * 1024"

definition handleFileSelect :: "upload_file option \<Rightarrow> app \<Rightarrow> app" where
  "handleFileSelect candidate s =
     (case candidate of
        None \<Rightarrow> s
      | Some f \<Rightarrow>
          let s1 = s\<lparr>fileError := None\<rparr>
          in if fileExtension f \<notin> set allowedExtensions
             then s1\<lparr>fileError := Some InvalidFileType, selectedUploadFile := None\<rparr>
             else if file_size f > maxSize
             then s1\<lparr>fileError := Some (FileTooLarge (file_size f)), selectedUploadFile := None\<rparr>
             else s1\<lparr>selectedUploadFile := Some f\<rparr>)"

section \<open>WorkflowProvider\<close>

text \<open>
  The initial value of \<open>uploadMetadata\<close>: the parsed content of
  \<open>finscope_upload_meta\<close>, or \<open>null\<close> when nothing truthy is stored; the
  \<open>catch\<close> logs and returns \<open>null\<close>.
\<close>

definition init_uploadMetadata :: "app \<Rightarrow> exn + upload_metadata option" where
  "init_uploadMetadata s =
     try_catch_value
       (case finscope_upload_meta s of
          None \<Rightarrow> Inr None
        | Some stored \<Rightarrow> if truthy_text stored then JSON_parse stored else Inr None)
       (\<lambda>e. Inr None)"

text \<open>The initial value of \<open>uploadAnalysisData\<close>, from \<open>finscope_upload_data\<close>.\<close>

definition init_uploadAnalysisData :: "app \<Rightarrow> exn + upload_analysis_data option" where
  "init_uploadAnalysisData s =
     try_catch_value
       (case finscope_upload_data s of
          None \<Rightarrow> Inr None
        | Some stored \<Rightarrow> if truthy_text stored then JSON_parse stored else Inr None)
       (\<lambda>e. Inr None)"

text \<open>
  Inside \<open>WorkflowProvider\<close> the state setter is bound to
  \<open>setSecWorkflowDataState\<close> and the wrapper to \<open>updateSecWorkflowData\<close>; the
  name \<open>setSecWorkflowData\<close> is only a key of the context value. The two
  statements of the provider that call \<open>setSecWorkflowData(...)\<close> therefore
  throw a \<open>ReferenceError\<close>.
\<close>

definition provider_setSecWorkflowData :: "sec_selection option \<Rightarrow> app \<Rightarrow> app outcome" where
  "provider_setSecWorkflowData d s = Throws ReferenceError s"

text \<open>
  The effect that loads the active session on initialization. Reading a field
  of \<open>parsed\<close> when the stored text is \<open>null\<close> throws a \<open>TypeError\<close>.
\<close>

definition loadActiveSession :: "app \<Rightarrow> app outcome" where
  "loadActiveSession s =
     try_catch
       (case finscope_active_session s of
          None \<Rightarrow> Returns s
        | Some stored \<Rightarrow>
            if \<not> truthy_text stored then Returns s
            else (case JSON_parse stored of
                    Inl e \<Rightarrow> Throws e s
                  | Inr None \<Rightarrow> Throws TypeError s
                  | Inr (Some parsed) \<Rightarrow>
                      let s1 = (case sr_analysisData parsed of
                                  Some a \<Rightarrow> s\<lparr>analysisData := Some a\<rparr>
                                | None \<Rightarrow> s);
                          s2 = (case sr_selectionMetadata parsed of
                                  Some m \<Rightarrow> s1\<lparr>selectionMetadata := Some m\<rparr>
                                | None \<Rightarrow> s1)
                      in (case sr_secWorkflowData parsed of
                            Some w \<Rightarrow> provider_setSecWorkflowData (Some w) s2
                          | None \<Rightarrow> Returns s2)))
       (\<lambda>e s'. Returns s')"

text \<open>
  Mounting the provider: every \<open>useState\<close> starts at its initial value, then
  the load effect runs.
\<close>

definition WorkflowProvider_mount :: "app \<Rightarrow> app outcome" where
  "WorkflowProvider_mount s =
     (case init_uploadMetadata s of
        Inl e \<Rightarrow> Throws e s
      | Inr um \<Rightarrow>
          (case init_uploadAnalysisData s of
             Inl e \<Rightarrow> Throws e s
           | Inr ud \<Rightarrow>
               loadActiveSession
                 (s\<lparr>secWorkflowData := None, analysisData := None, selectionMetadata := None,
                    analysisLoading := False, uploadMetadata := um, selectedUploadFile := None,
                    uploadAnalysisData := ud\<rparr>)))"

text \<open>
  \<open>localStorage.setItem\<close> on each of the three keys.
\<close>

definition setItem_active_session :: "storage_write \<Rightarrow> session_record stored \<Rightarrow> app \<Rightarrow> app outcome" where
  "setItem_active_session w text s =
     (case w of
        Stored \<Rightarrow> Returns (s\<lparr>finscope_active_session := Some text\<rparr>)
      | QuotaExceeded \<Rightarrow> Throws QuotaExceededError s)"

definition setItem_upload_meta :: "storage_write \<Rightarrow> upload_metadata stored \<Rightarrow> app \<Rightarrow> app outcome" where
  "setItem_upload_meta w text s =
     (case w of
        Stored \<Rightarrow> Returns (s\<lparr>finscope_upload_meta := Some text\<rparr>)
      | QuotaExceeded \<Rightarrow> Throws QuotaExceededError s)"

definition setItem_upload_data :: "storage_write \<Rightarrow> upload_analysis_data stored \<Rightarrow> app \<Rightarrow> app outcome" where
  "setItem_upload_data w text s =
     (case w of
        Stored \<Rightarrow> Returns (s\<lparr>finscope_upload_data := Some text\<rparr>)
      | QuotaExceeded \<Rightarrow> Throws QuotaExceededError s)"

text \<open>
  The effect that saves the active session whenever \<open>analysisData\<close>,
  \<open>selectionMetadata\<close> or \<open>secWorkflowData\<close> changes; \<open>now\<close> is
  \<open>new Date().toISOString()\<close> and \<open>w\<close> is what the browser does with the
  write. The \<open>catch\<close> logs the error and goes on.
\<close>

definition saveActiveSession :: "storage_write \<Rightarrow> string \<Rightarrow> app \<Rightarrow> app outcome" where
  "saveActiveSession w now s =
     try_catch
       (let sessionData = \<lparr>sr_analysisData = analysisData s,
                           sr_selectionMetadata = selectionMetadata s,
                           sr_secWorkflowData = secWorkflowData s,
                           sr_timestamp = now\<rparr>
        in if analysisData s \<noteq> None \<or> selectionMetadata s \<noteq> None \<or> secWorkflowData s \<noteq> None
           then setItem_active_session w (JSON_stringify (Some sessionData)) s
           else Returns (s\<lparr>finscope_active_session := None\<rparr>))
       (\<lambda>e s'. Returns s')"

text \<open>
  The effect that saves the upload data, with one write for the metadata and
  one for the analysis data; a throw of the first skips the second.
\<close>

definition saveUploadData :: "storage_write \<Rightarrow> storage_write \<Rightarrow> app \<Rightarrow> app outcome" where
  "saveUploadData w1 w2 s =
     try_catch
       (then_do
          (case uploadMetadata s of
             Some m \<Rightarrow> setItem_upload_meta w1 (JSON_stringify (Some m)) s
           | None \<Rightarrow> Returns (s\<lparr>finscope_upload_meta := None\<rparr>))
          (\<lambda>s1. case uploadAnalysisData s of
                   Some d \<Rightarrow> setItem_upload_data w2 (JSON_stringify (Some d)) s1
                 | None \<Rightarrow> Returns (s1\<lparr>finscope_upload_data := None\<rparr>)))
       (\<lambda>e s'. Returns s')"

text \<open>
  \<open>updateSecWorkflowData\<close>, which the context exports as
  \<open>setSecWorkflowData\<close>.
\<close>

definition updateSecWorkflowData :: "sec_selection option \<Rightarrow> app \<Rightarrow> app" where
  "updateSecWorkflowData d s =
     (let s1 = s\<lparr>secWorkflowData := d\<rparr>
      in case d of
           Some w \<Rightarrow>
             s1\<lparr>selectionMetadata :=
                  Some \<lparr>ticker = ticker w, company_name = company_name w,
                        selected_filing = selected_filing w\<rparr>\<rparr>
         | None \<Rightarrow> s1\<lparr>selectionMetadata := None\<rparr>)"

definition clearActiveSession :: "app \<Rightarrow> app outcome" where
  "clearActiveSession s =
     (let s1 = s\<lparr>analysisData := None\<rparr>;
          s2 = s1\<lparr>selectionMetadata := None\<rparr>
      in then_do (provider_setSecWorkflowData None s2)
           (\<lambda>s3. Returns (s3\<lparr>finscope_active_session := None\<rparr>)))"

section \<open>Settling a fetch\<close>

text \<open>
  The pattern shared by the handlers, inside their \<open>try\<close>:
  \<^verbatim>\<open>if (!response.ok) { const errorData = await response.json()
    throw new Error(errorData.error || `HTTP error! status: ${response.status}`) }
  const data = await response.json()\<close>
  \<open>Inl m\<close> is the message of the error that reaches the \<open>catch\<close>.
\<close>

definition http_error :: "nat \<Rightarrow> string" where
  "http_error status = ''HTTP error! status: '' @ string_of_nat status"

fun settle :: "'a reply \<Rightarrow> string + 'a" where
  "settle (Rejected m) = Inl m"
| "settle (HttpNotOk status (BadJson m)) = Inl m"
| "settle (HttpNotOk status (JsonBody e)) = Inl (if truthy e then or_empty e else http_error status)"
| "settle (HttpOk (BadJson m)) = Inl m"
| "settle (HttpOk (JsonBody d)) = Inr d"

text \<open>
  The same for a call whose successful response is not read (end-session):
  the message of the error thrown, if any.
\<close>

fun settle_unread :: "'a reply \<Rightarrow> string option" where
  "settle_unread (Rejected m) = Some m"
| "settle_unread (HttpNotOk status (BadJson m)) = Some m"
| "settle_unread (HttpNotOk status (JsonBody e)) =
     Some (if truthy e then or_empty e else http_error status)"
| "settle_unread (HttpOk b) = None"

section \<open>SEC search page\<close>

definition hasAnalysisForCurrentSelection :: "app \<Rightarrow> bool" where
  "hasAnalysisForCurrentSelection s =
     (case (analysisData s, selectionMetadata s, selectedFiling s) of
        (Some a, Some m, Some f) \<Rightarrow>
          let currentTicker = map_option ticker (selectedCompany s);
              currentFilingId = Some (accession_number f);
              storedTicker = Some (ticker m);
              storedFilingId = map_option accession_number (selected_filing m)
          in currentTicker = storedTicker \<and> currentFilingId = storedFilingId
      | _ \<Rightarrow> False)"

text \<open>\<open>analysisData?.sessionId\<close>, when it is truthy.\<close>

definition analysis_sessionId :: "app \<Rightarrow> string option" where
  "analysis_sessionId s =
     (case analysisData s of
        None \<Rightarrow> None
      | Some a \<Rightarrow> if truthy (ad_sessionId a) then ad_sessionId a else None)"

text \<open>\<open>navigate(path, { state })\<close>.\<close>

definition navigate :: "string \<Rightarrow> location_state option \<Rightarrow> app \<Rightarrow> app" where
  "navigate path st s = s\<lparr>route := path, location_state := st\<rparr>"

text \<open>
  \<open>proceedWithNewAnalysis\<close> up to its \<open>await fetch('/api/end-session')\<close>, which
  it reaches only when the old analysis has a session id.
\<close>

definition proceedWithNewAnalysis_begin :: "app \<Rightarrow> app" where
  "proceedWithNewAnalysis_begin s =
     (if selectedCompany s = None \<or> selectedFiling s = None then s
      else case analysis_sessionId s of
             Some sid \<Rightarrow> s\<lparr>requests := requests s @ [EndSession sid]\<rparr>
           | None \<Rightarrow> s)"

text \<open>
  What the \<open>try\<close> around the end-session call does with its outcome: a failed
  response and a thrown error are logged, each under the comment "Continue
  anyway - don't block the user".
\<close>

fun end_session_logged :: "unit reply \<Rightarrow> app \<Rightarrow> app" where
  "end_session_logged (Rejected m) s = s"
| "end_session_logged (HttpNotOk status b) s = s"
| "end_session_logged (HttpOk b) s = s"

text \<open>
  The rest of \<open>proceedWithNewAnalysis\<close>; \<open>c\<close> is the state the handler was
  rendered with, \<open>s\<close> the state when it continues.
\<close>

definition proceedWithNewAnalysis_resume :: "app \<Rightarrow> unit reply \<Rightarrow> app \<Rightarrow> app" where
  "proceedWithNewAnalysis_resume c r s =
     (case (selectedCompany c, selectedFiling c) of
        (Some co, Some f) \<Rightarrow>
          let s0 = (case analysis_sessionId c of
                      Some sid \<Rightarrow> end_session_logged r s
                    | None \<Rightarrow> s);
              s1 = s0\<lparr>analysisData := None\<rparr>;
              s2 = updateSecWorkflowData None s1;
              s3 = s2\<lparr>finscope_active_session := None\<rparr>;
              workflowData = \<lparr>ticker = ticker co, company_name = company_name co,
                              selected_filing = Some f\<rparr>;
              s4 = updateSecWorkflowData (Some workflowData) s3;
              s5 = s4\<lparr>showConflictDialog := False, conflictData := None\<rparr>
          in navigate ''/analysis'' None s5
      | _ \<Rightarrow> s)"

definition proceedWithNewAnalysis :: "unit reply \<Rightarrow> app \<Rightarrow> app" where
  "proceedWithNewAnalysis r s = proceedWithNewAnalysis_resume s r (proceedWithNewAnalysis_begin s)"

text \<open>The "Start Analysis" button of the SEC search page.\<close>

definition sec_handleStartAnalysis :: "unit reply \<Rightarrow> app \<Rightarrow> app" where
  "sec_handleStartAnalysis r s =
     (case (selectedCompany s, selectedFiling s) of
        (Some co, Some f) \<Rightarrow>
          let currentTicker = ticker co;
              currentFilingId = accession_number f
          in (case (analysisData s, selectionMetadata s) of
                (Some a, Some m) \<Rightarrow>
                  let existingTicker = ticker m;
                      existingFilingId = map_option accession_number (selected_filing m)
                  in if existingTicker \<noteq> currentTicker \<or> existingFilingId \<noteq> Some currentFilingId
                     then s\<lparr>conflictData :=
                              Some \<lparr>existingTicker =
                                      (if existingTicker \<noteq> [] then existingTicker
                                       else ''another company''),
                                    currentTicker = currentTicker,
                                    currentFilingId = currentFilingId\<rparr>,
                            showConflictDialog := True\<rparr>
                     else proceedWithNewAnalysis r s
              | _ \<Rightarrow> proceedWithNewAnalysis r s)
      | _ \<Rightarrow> s)"

definition handleResumeExistingAnalysis :: "app \<Rightarrow> app" where
  "handleResumeExistingAnalysis s =
     navigate ''/analysis'' None (s\<lparr>showConflictDialog := False, conflictData := None\<rparr>)"

definition handleResumeAnalysis :: "app \<Rightarrow> app" where
  "handleResumeAnalysis s = navigate ''/analysis'' None s"

section \<open>Analysis page\<close>

definition isUploadSourceType :: "app \<Rightarrow> bool" where
  "isUploadSourceType s =
     (case analysisData s of None \<Rightarrow> False | Some a \<Rightarrow> sourceType a = Some ''upload'')"

text \<open>\<open>uploadAnalysisData && uploadAnalysisData.sessionId\<close>.\<close>

definition upload_sessionId :: "app \<Rightarrow> string option" where
  "upload_sessionId s =
     (case uploadAnalysisData s of
        None \<Rightarrow> None
      | Some u \<Rightarrow> if truthy (uad_sessionId u) then uad_sessionId u else None)"

definition isFreshUpload :: "app \<Rightarrow> bool" where
  "isFreshUpload s = (case location_state s of None \<Rightarrow> False | Some st \<Rightarrow> isUpload st)"

text \<open>
  The resume branch of \<open>startAnalysis\<close> for an upload session (\<open>a\<close> is
  \<open>analysisData\<close>): restore the page from the cached data, then either wait
  for the session's metadata (when \<open>uploadMetadata\<close> has no company name), or
  go on, asking for the chat history in the background when the cache has no
  messages. After a fresh upload the loading screen stays until a timer of two
  seconds fires.
\<close>

definition startAnalysis_upload_resume :: "analysis_data \<Rightarrow> app \<Rightarrow> app" where
  "startAnalysis_upload_resume a s =
     (let s1 = (case uploadAnalysisData s of
                  Some u \<Rightarrow>
                    if truthy (uad_sessionId u)
                    then s\<lparr>sessionId := uad_sessionId u,
                           executiveSummary :=
                             (if truthy (uad_executiveSummary u) then or_empty (uad_executiveSummary u)
                              else ad_executiveSummary a),
                           newsArticles :=
                             (case uad_newsArticles u of Some n \<Rightarrow> n | None \<Rightarrow> ad_newsArticles a),
                           chatMessages := ad_chatMessages a\<rparr>
                    else s\<lparr>sessionId := ad_sessionId a,
                           executiveSummary := ad_executiveSummary a,
                           newsArticles := ad_newsArticles a,
                           chatMessages := ad_chatMessages a\<rparr>
                | None \<Rightarrow>
                    s\<lparr>sessionId := ad_sessionId a,
                      executiveSummary := ad_executiveSummary a,
                      newsArticles := ad_newsArticles a,
                      chatMessages := ad_chatMessages a\<rparr>)
      in if \<not> truthy (Option.bind (uploadMetadata s) companyName)
         then s1\<lparr>requests := requests s1 @ [GetHistory (or_empty (ad_sessionId a))]\<rparr>
         else
           let s2 = (if \<not> isFreshUpload s \<and> ad_chatMessages a = []
                     then s1\<lparr>requests := requests s1 @ [GetHistory (or_empty (ad_sessionId a))]\<rparr>
                     else s1)
           in if isFreshUpload s then s2 else s2\<lparr>loading := False\<rparr>)"

text \<open>
  The branch for upload metadata without analysis data: adopt
  \<open>uploadAnalysisData\<close> when it has a session, else look the session of
  \<open>location.state\<close> up, else report that nothing was found.
\<close>

definition startAnalysis_upload_recover :: "app \<Rightarrow> app" where
  "startAnalysis_upload_recover s =
     (case upload_sessionId s of
        Some sid \<Rightarrow>
          (case uploadAnalysisData s of
             Some u \<Rightarrow>
               s\<lparr>loading := True,
                 sessionId := Some sid,
                 executiveSummary := or_empty (uad_executiveSummary u),
                 newsArticles := (case uad_newsArticles u of Some n \<Rightarrow> n | None \<Rightarrow> []),
                 analysisData :=
                   Some \<lparr>ad_sessionId = Some sid,
                         ad_executiveSummary = or_empty (uad_executiveSummary u),
                         ad_newsArticles = (case uad_newsArticles u of Some n \<Rightarrow> n | None \<Rightarrow> []),
                         ad_chatMessages = [],
                         sourceType = Some ''upload''\<rparr>\<rparr>
           | None \<Rightarrow> s)
      | None \<Rightarrow>
          let s1 = s\<lparr>loading := True\<rparr>
          in (case Option.bind (location_state s) loc_sessionId of
                Some lsid \<Rightarrow>
                  if lsid \<noteq> [] then s1\<lparr>requests := requests s1 @ [GetHistory lsid]\<rparr>
                  else s1\<lparr>error := Some ''Analysis data not found. Please try uploading again.'',
                          loading := False\<rparr>
              | None \<Rightarrow>
                  s1\<lparr>error := Some ''Analysis data not found. Please try uploading again.'',
                     loading := False\<rparr>))"

text \<open>
  \<open>startAnalysis\<close>, the effect of the analysis page that runs on mount and
  whenever \<open>secWorkflowData\<close>, \<open>analysisData\<close>, \<open>selectionMetadata\<close> or
  \<open>uploadMetadata\<close> changes, up to its first \<open>await\<close>. The SEC part: without
  a selected filing it reports missing workflow data; with cached analysis data
  for the same ticker and filing it restores the page; otherwise it drops the
  cached analysis data, if any, and posts to \<open>/api/start-analysis\<close>.
\<close>

definition startAnalysis_begin :: "app \<Rightarrow> app" where
  "startAnalysis_begin s =
     (if isUploadSourceType s \<and> analysis_sessionId s \<noteq> None \<and> secWorkflowData s = None
      then (case analysisData s of Some a \<Rightarrow> startAnalysis_upload_resume a s | None \<Rightarrow> s)
      else if secWorkflowData s = None \<and> uploadMetadata s \<noteq> None \<and> analysis_sessionId s = None
      then startAnalysis_upload_recover s
      else
        (case secWorkflowData s of
           None \<Rightarrow>
             s\<lparr>error := Some ''Missing workflow data. Please start from the company search page or upload page.'',
               loading := False\<rparr>
         | Some w \<Rightarrow>
             (case selected_filing w of
                None \<Rightarrow>
                  s\<lparr>error := Some ''Missing workflow data. Please start from the company search page or upload page.'',
                    loading := False\<rparr>
              | Some f \<Rightarrow>
                  let fetch_new = (\<lambda>s'.
                        s'\<lparr>loading := True, error := None,
                           requests := requests s' @
                             [StartAnalysis (ticker w) (company_name w) (accession_number f)]\<rparr>)
                  in (case (analysisData s, selectionMetadata s) of
                        (Some a, Some m) \<Rightarrow>
                          let currentFilingId = Some (accession_number f);
                              storedFilingId = map_option accession_number (selected_filing m)
                          in if truthy (ad_sessionId a) \<and> ticker m = ticker w
                                \<and> currentFilingId = storedFilingId
                             then s\<lparr>sessionId := ad_sessionId a,
                                    executiveSummary := ad_executiveSummary a,
                                    newsArticles := ad_newsArticles a,
                                    chatMessages := ad_chatMessages a,
                                    loading := False\<rparr>
                             else fetch_new (s\<lparr>analysisData := None\<rparr>)
                      | _ \<Rightarrow> fetch_new s))))"

text \<open>
  The transcript the page renders: for an upload session the messages of
  \<open>analysisData\<close>, otherwise the page's own \<open>chatMessages\<close>.
\<close>

definition displayChatMessages :: "app \<Rightarrow> message list" where
  "displayChatMessages s =
     (case analysisData s of
        Some a \<Rightarrow> if sourceType a = Some ''upload'' then ad_chatMessages a else chatMessages s
      | None \<Rightarrow> chatMessages s)"

text \<open>The answer of \<open>POST /api/chat\<close>.\<close>

record chat_data =
  assistantResponse :: string
  cd_references :: "string option"

text \<open>
  \<open>handleSendMessage\<close> up to its \<open>await fetch('/api/chat')\<close>; \<open>now\<close> is the
  clock reading for the message's timestamp.
\<close>

definition handleSendMessage_begin :: "string \<Rightarrow> app \<Rightarrow> app" where
  "handleSendMessage_begin now s =
     (if trim (userInput s) = [] \<or> \<not> truthy (sessionId s) \<or> sendingMessage s then s
      else
        let messageText = trim (userInput s);
            userMessage = \<lparr>role = User, content = messageText, references = None,
                           isError = False, timestamp = now\<rparr>
        in s\<lparr>userInput := [],
             chatMessages := chatMessages s @ [userMessage],
             sendingMessage := True,
             requests := requests s @ [Chat (or_empty (sessionId s)) messageText]\<rparr>)"

text \<open>
  The rest of \<open>handleSendMessage\<close>, for a call that passed the guard: \<open>c\<close> is
  the state the handler was rendered with, \<open>s\<close> the state when the answer
  arrives.
\<close>

definition handleSendMessage_resume :: "app \<Rightarrow> string \<Rightarrow> chat_data reply \<Rightarrow> app \<Rightarrow> app" where
  "handleSendMessage_resume c now r s =
     (if trim (userInput c) = [] \<or> \<not> truthy (sessionId c) \<or> sendingMessage c then s
      else
        let s1 = (case settle r of
                    Inr data \<Rightarrow>
                      let assistantMessage =
                            \<lparr>role = Assistant, content = assistantResponse data,
                             references = Some (or_empty (cd_references data)),
                             isError = False, timestamp = now\<rparr>;
                          updated = chatMessages s @ [assistantMessage]
                      in s\<lparr>chatMessages := updated,
                           analysisData :=
                             (case analysisData s of
                                None \<Rightarrow> None
                              | Some prevData \<Rightarrow> Some (prevData\<lparr>ad_chatMessages := updated\<rparr>))\<rparr>
                  | Inl m \<Rightarrow>
                      let errorMessage =
                            \<lparr>role = Assistant, content = ''Error: '' @ m, references = None,
                             isError = True, timestamp = now\<rparr>
                      in s\<lparr>chatMessages := chatMessages s @ [errorMessage]\<rparr>)
        in s1\<lparr>sendingMessage := False\<rparr>)"

definition handleSendMessage :: "string \<Rightarrow> string \<Rightarrow> chat_data reply \<Rightarrow> app \<Rightarrow> app" where
  "handleSendMessage now now' r s =
     handleSendMessage_resume s now' r (handleSendMessage_begin now s)"

text \<open>
  \<open>handleEndSessionConfirm\<close> up to its \<open>await fetch('/api/end-session')\<close>, and
  the rest of it.
\<close>

definition handleEndSessionConfirm_begin :: "app \<Rightarrow> app" where
  "handleEndSessionConfirm_begin s =
     (if \<not> truthy (sessionId s) then s
      else s\<lparr>endingSession := True,
             requests := requests s @ [EndSession (or_empty (sessionId s))]\<rparr>)"

definition handleEndSessionConfirm_resume :: "app \<Rightarrow> unit reply \<Rightarrow> app \<Rightarrow> app" where
  "handleEndSessionConfirm_resume c r s =
     (if \<not> truthy (sessionId c) then s
      else
        (case settle_unread r of
           None \<Rightarrow>
             let isUploadWorkflow = isUploadSourceType c;
                 s1 = (if isUploadWorkflow
                       then s\<lparr>uploadAnalysisData := None, uploadMetadata := None,
                              finscope_upload_data := None, finscope_upload_meta := None\<rparr>
                       else s);
                 s2 = updateSecWorkflowData None s1;
                 s3 = s2\<lparr>analysisData := None\<rparr>;
                 s4 = s3\<lparr>finscope_active_session := None\<rparr>
             in navigate ''/'' None s4
         | Some m \<Rightarrow>
             s\<lparr>alerts := alerts s @ [''Failed to end session: '' @ m],
               endingSession := False,
               showEndSessionDialog := False\<rparr>))"

definition handleEndSessionConfirm :: "unit reply \<Rightarrow> app \<Rightarrow> app" where
  "handleEndSessionConfirm r s =
     handleEndSessionConfirm_resume s r (handleEndSessionConfirm_begin s)"

section \<open>Upload page: dirty check and submission\<close>

text \<open>
  \<open>String(y || '')\<close> for the year of a form: an absent year and the year 0
  are falsy.
\<close>

definition year_text :: "int option \<Rightarrow> string" where
  "year_text y = (case y of None \<Rightarrow> [] | Some n \<Rightarrow> if n = 0 then [] else string_of_int n)"

definition isDirty :: "app \<Rightarrow> bool" where
  "isDirty s =
     (let hasActiveAnalysis = (upload_sessionId s \<noteq> None);
          isUploadWorkflow = isUploadSourceType s
      in if \<not> hasActiveAnalysis \<or> \<not> isUploadWorkflow then False
         else
           (case submittedMetadata s of
              None \<Rightarrow> False
            | Some submitted \<Rightarrow>
                let current_companyName = trim (or_empty (Option.bind (uploadMetadata s) companyName));
                    current_docTitle = trim (or_empty (Option.bind (uploadMetadata s) docTitle));
                    current_docType = trim (or_empty (Option.bind (uploadMetadata s) docType));
                    current_year = year_text (Option.bind (uploadMetadata s) year);
                    currentFileName =
                      (case selectedUploadFile s of Some f \<Rightarrow> file_name f | None \<Rightarrow> []);
                    metadataMatches =
                      (current_companyName = trim (or_empty (companyName submitted))
                       \<and> current_docTitle = trim (or_empty (docTitle submitted))
                       \<and> current_docType = trim (or_empty (docType submitted))
                       \<and> current_year = year_text (year submitted));
                    fileNameMatches = (currentFileName = or_empty (submittedFileName s))
                in \<not> (metadataMatches \<and> fileNameMatches)))"

definition buttonText :: "app \<Rightarrow> string" where
  "buttonText s =
     (if upload_sessionId s \<noteq> None
      then (if isDirty s then ''Start New Analysis'' else ''Resume Analysis'')
      else ''Start Analysis'')"

text \<open>The answer of \<open>POST /api/upload-analysis\<close>.\<close>

record upload_response =
  ur_sessionId :: "string option"
  ur_executiveSummary :: "string option"
  ur_newsArticles :: "article list option"

text \<open>
  The upload page's \<open>handleStartAnalysis\<close> up to its
  \<open>await fetch('/api/upload-analysis')\<close>. It reads the file and the form from
  \<open>c\<close>, the state the page was rendered with, and queues its updates on \<open>s\<close>.
\<close>

definition upload_handleStartAnalysis_begin :: "app \<Rightarrow> app \<Rightarrow> app" where
  "upload_handleStartAnalysis_begin c s =
     (case selectedUploadFile c of
        None \<Rightarrow> s\<lparr>fileError := Some PleaseSelectFile\<rparr>
      | Some f \<Rightarrow>
          let companyName' = trim (or_empty (Option.bind (uploadMetadata c) companyName))
          in if companyName' = []
             then s\<lparr>alerts := alerts s @ [''Please enter a company name.'']\<rparr>
             else
               let docTitle' = (case Option.bind (uploadMetadata c) docTitle of
                                  Some t \<Rightarrow> if t \<noteq> [] then Some t else None
                                | None \<Rightarrow> None);
                   docType' = (case Option.bind (uploadMetadata c) docType of
                                 Some t \<Rightarrow> if t \<noteq> [] then Some t else None
                               | None \<Rightarrow> None);
                   year' = (case Option.bind (uploadMetadata c) year of
                              Some n \<Rightarrow> if n \<noteq> 0 then Some (string_of_int n) else None
                            | None \<Rightarrow> None)
               in s\<lparr>isLoading := True, analysisLoading := True,
                    requests := requests s @ [UploadAnalysis f companyName' docTitle' docType' year']\<rparr>)"

text \<open>\<open>{ ...uploadMetadata }\<close>: the copy of \<open>null\<close> is the empty object.\<close>

definition spread_metadata :: "upload_metadata option \<Rightarrow> upload_metadata" where
  "spread_metadata m =
     (case m of
        Some x \<Rightarrow> x
      | None \<Rightarrow> \<lparr>companyName = None, docTitle = None, docType = None, year = None\<rparr>)"

text \<open>The rest of \<open>handleStartAnalysis\<close>, for a call that sent the request.\<close>

definition upload_handleStartAnalysis_resume :: "app \<Rightarrow> upload_response reply \<Rightarrow> app \<Rightarrow> app" where
  "upload_handleStartAnalysis_resume c r s =
     (case selectedUploadFile c of
        None \<Rightarrow> s
      | Some f \<Rightarrow>
          if trim (or_empty (Option.bind (uploadMetadata c) companyName)) = [] then s
          else
            let s1 = (case settle r of
                        Inr data \<Rightarrow>
                          let responseWithMetadata =
                                \<lparr>uad_sessionId = ur_sessionId data,
                                 uad_executiveSummary = ur_executiveSummary data,
                                 uad_newsArticles = ur_newsArticles data,
                                 uad_submittedMetadata = Some (spread_metadata (uploadMetadata c)),
                                 uad_submittedFileName = Some (file_name f)\<rparr>;
                              s2 = s\<lparr>uploadAnalysisData := Some responseWithMetadata\<rparr>;
                              s3 = s2\<lparr>analysisData :=
                                        Some \<lparr>ad_sessionId = ur_sessionId data,
                                              ad_executiveSummary = or_empty (ur_executiveSummary data),
                                              ad_newsArticles =
                                                (case ur_newsArticles data of Some n \<Rightarrow> n | None \<Rightarrow> []),
                                              ad_chatMessages = [],
                                              sourceType = Some ''upload''\<rparr>\<rparr>;
                              s4 = s3\<lparr>submittedMetadata := Some (spread_metadata (uploadMetadata c)),
                                      submittedFileName := Some (file_name f)\<rparr>
                          in navigate ''/analysis'' (Some \<lparr>isUpload = True, loc_sessionId = None\<rparr>) s4
                      | Inl m \<Rightarrow> s\<lparr>isLoading := False\<rparr>)
            in s1\<lparr>analysisLoading := False\<rparr>)"

definition upload_handleStartAnalysis :: "upload_response reply \<Rightarrow> app \<Rightarrow> app" where
  "upload_handleStartAnalysis r s =
     upload_handleStartAnalysis_resume s r (upload_handleStartAnalysis_begin s s)"

text \<open>
  \<open>handleProceedWithNew\<close>, the "Proceed" button of the replace modal: it
  clears the upload session locally and calls \<open>handleStartAnalysis\<close>, which
  still sees the file and the form the page was rendered with.
\<close>

definition handleProceedWithNew_clear :: "app \<Rightarrow> app" where
  "handleProceedWithNew_clear s =
     (let s1 = s\<lparr>uploadAnalysisData := None, selectedUploadFile := None\<rparr>;
          s2 = s1\<lparr>finscope_upload_data := None\<rparr>;
          s3 = (if isUploadSourceType s then s2\<lparr>analysisData := None\<rparr> else s2);
          s4 = s3\<lparr>submittedMetadata := None, submittedFileName := None\<rparr>
      in s4\<lparr>showReplaceModal := False\<rparr>)"

definition handleProceedWithNew_begin :: "app \<Rightarrow> app" where
  "handleProceedWithNew_begin s =
     upload_handleStartAnalysis_begin s (handleProceedWithNew_clear s)"

definition handleProceedWithNew :: "upload_response reply \<Rightarrow> app \<Rightarrow> app" where
  "handleProceedWithNew r s =
     upload_handleStartAnalysis_resume s r (handleProceedWithNew_begin s)"

text \<open>The action button of the upload page.\<close>

definition handleButtonClick :: "upload_response reply \<Rightarrow> app \<Rightarrow> app" where
  "handleButtonClick r s =
     (if buttonText s = ''Resume Analysis'' then navigate ''/analysis'' None s
      else if buttonText s = ''Start New Analysis'' then s\<lparr>showReplaceModal := True\<rparr>
      else upload_handleStartAnalysis r s)"

section \<open>The application before anything is stored or selected\<close>

definition app0 :: app where
  "app0 =
     \<lparr>secWorkflowData = None, analysisData = None, selectionMetadata = None,
      uploadMetadata = None, selectedUploadFile = None, uploadAnalysisData = None,
      analysisLoading = False,
      finscope_active_session = None, finscope_upload_meta = None, finscope_upload_data = None,
      requests = [], alerts = [], route = ''/'', location_state = None,
      selectedCompany = None, selectedFiling = None, showConflictDialog = False,
      conflictData = None,
      submittedMetadata = None, submittedFileName = None, showReplaceModal = False,
      fileError = None, isLoading = False,
      loading = True, error = None, sessionId = None, executiveSummary = [],
      newsArticles = [], chatMessages = [], userInput = [], sendingMessage = False,
      showEndSessionDialog = False, endingSession = False\<rparr>"

section \<open>Reference points for the statements below\<close>

text \<open>
  What a key holds for a reader that takes text which does not parse for
  nothing stored: the parsed value, and \<open>null\<close> for a missing key and for
  malformed text alike.
\<close>

definition stored_value :: "'a stored option \<Rightarrow> 'a option" where
  "stored_value x = (case x of Some (Json v) \<Rightarrow> v | _ \<Rightarrow> None)"

text \<open>
  The same for the whole store: every key dropped whose text does not parse.
\<close>

definition without_malformed :: "app \<Rightarrow> app" where
  "without_malformed s =
     s\<lparr>finscope_active_session :=
         (case finscope_active_session s of Some (Malformed t) \<Rightarrow> None | x \<Rightarrow> x),
       finscope_upload_meta :=
         (case finscope_upload_meta s of Some (Malformed t) \<Rightarrow> None | x \<Rightarrow> x),
       finscope_upload_data :=
         (case finscope_upload_data s of Some (Malformed t) \<Rightarrow> None | x \<Rightarrow> x)\<rparr>"

text \<open>
  The state after a mount that reads every key through \<open>stored_value\<close>:
  the workflow data is not restored, the other context values are what the keys
  hold, and nothing else changes.
\<close>

definition loaded_context :: "app \<Rightarrow> app" where
  "loaded_context s =
     s\<lparr>secWorkflowData := None,
       analysisData := Option.bind (stored_value (finscope_active_session s)) sr_analysisData,
       selectionMetadata := Option.bind (stored_value (finscope_active_session s)) sr_selectionMetadata,
       analysisLoading := False,
       uploadMetadata := stored_value (finscope_upload_meta s),
       selectedUploadFile := None,
       uploadAnalysisData := stored_value (finscope_upload_data s)\<rparr>"

text \<open>
  What the load effect restores from a parsed session record: the analysis
  data and the selection metadata, each when present.
\<close>

definition restore_session :: "session_record \<Rightarrow> app \<Rightarrow> app" where
  "restore_session parsed s =
     (let s1 = (case sr_analysisData parsed of
                  Some a \<Rightarrow> s\<lparr>analysisData := Some a\<rparr>
                | None \<Rightarrow> s)
      in (case sr_selectionMetadata parsed of
            Some m \<Rightarrow> s1\<lparr>selectionMetadata := Some m\<rparr>
          | None \<Rightarrow> s1))"

text \<open>
  A company with two filings, and the analysis data of a session \<open>S1\<close>.
\<close>

definition filing1 :: filing where
  "filing1 = \<lparr>accession_number = ''0001-23'', form_type = ''10-K'', filing_date = ''2023-02-01''\<rparr>"

definition filing2 :: filing where
  "filing2 = \<lparr>accession_number = ''0002-24'', form_type = ''10-K'', filing_date = ''2024-02-01''\<rparr>"

definition acme :: company where
  "acme = \<lparr>ticker = ''ACME'', company_name = ''Acme Corp''\<rparr>"

definition acme_selection :: "filing \<Rightarrow> sec_selection" where
  "acme_selection f = \<lparr>ticker = ''ACME'', company_name = ''Acme Corp'', selected_filing = Some f\<rparr>"

definition session1 :: analysis_data where
  "session1 = \<lparr>ad_sessionId = Some ''S1'', ad_executiveSummary = ''Summary'',
               ad_newsArticles = [], ad_chatMessages = [], sourceType = None\<rparr>"

text \<open>An upload form with a file, and the backend's answer to its submission.\<close>

definition report_small :: upload_file where
  "report_small = \<lparr>file_name = ''report.pdf'', file_size = 1024\<rparr>"

definition report_large :: upload_file where
  "report_large = \<lparr>file_name = ''report.pdf'', file_size = 2048\<rparr>"

definition acme_form :: upload_metadata where
  "acme_form = \<lparr>companyName = Some ''Acme Corp'', docTitle = Some ''Annual report'',
                docType = Some ''10-K'', year = Some 2024\<rparr>"

definition upload_form :: app where
  "upload_form = app0\<lparr>uploadMetadata := Some acme_form, selectedUploadFile := Some report_small\<rparr>"

definition upload_created :: "upload_response reply" where
  "upload_created =
     HttpOk (JsonBody \<lparr>ur_sessionId = Some ''U1'', ur_executiveSummary = Some ''Summary'',
                       ur_newsArticles = Some []\<rparr>)"

text \<open>
  The states the examples start from: the upload form after a successful
  submission, the same with its session shown on the analysis page and the
  three keys saved, an SEC session \<open>S1\<close> for the first filing with its saved
  record, and the upload session's analysis page with a chat message typed.
\<close>

definition upload_submitted :: app where
  "upload_submitted = upload_handleStartAnalysis upload_created upload_form"

definition upload_active :: app where
  "upload_active =
     upload_submitted\<lparr>sessionId := Some ''U1'',
       finscope_active_session :=
         Some (Json (Some \<lparr>sr_analysisData = analysisData upload_submitted,
                            sr_selectionMetadata = None, sr_secWorkflowData = None,
                            sr_timestamp = ''t0''\<rparr>)),
       finscope_upload_meta := Some (Json (Some acme_form)),
       finscope_upload_data := Some (Json (uploadAnalysisData upload_submitted))\<rparr>"

definition sec_active :: app where
  "sec_active =
     app0\<lparr>analysisData := Some session1,
          secWorkflowData := Some (acme_selection filing1),
          selectionMetadata := Some (acme_selection filing1),
          selectedCompany := Some acme, selectedFiling := Some filing1,
          sessionId := Some ''S1'', loading := False,
          finscope_active_session :=
            Some (Json (Some \<lparr>sr_analysisData = Some session1,
                               sr_selectionMetadata = Some (acme_selection filing1),
                               sr_secWorkflowData = Some (acme_selection filing1),
                               sr_timestamp = ''t0''\<rparr>))\<rparr>"

definition upload_chat_ready :: app where
  "upload_chat_ready = upload_active\<lparr>userInput := ''Revenue?''\<rparr>"

text \<open>A store whose three keys hold text that does not parse.\<close>

definition corrupt_store :: app where
  "corrupt_store =
     app0\<lparr>finscope_active_session := Some (Malformed ''{analysisData:''),
          finscope_upload_meta := Some (Malformed ''{''),
          finscope_upload_data := Some (Malformed ''undefined''),
          analysisData := Some session1,
          alerts := [''earlier alert'']\<rparr>"

text \<open>
  The SEC session \<open>S1\<close> with the second filing selected on the search page,
  and the state after "Start New" when the end-session call was rejected.
\<close>

definition sec_other_filing :: app where
  "sec_other_filing = sec_active\<lparr>selectedFiling := Some filing2\<rparr>"

definition sec_replaced :: app where
  "sec_replaced = proceedWithNewAnalysis (Rejected ''Failed to fetch'') sec_other_filing"

section \<open>File selection accepts exactly the small PDF and TXT files\<close>

lemma lastIndexOf_from_absent:
  "c \<notin> set xs \<Longrightarrow> lastIndexOf_from xs c i found = found"
  by (induction xs arbitrary: i found) auto

lemma lastIndexOf_from_last:
  "c \<notin> set t \<Longrightarrow> lastIndexOf_from (p @ c # t) c i found = int (i + length p)"
  by (induction p arbitrary: i found) (auto simp: lastIndexOf_from_absent)

lemma lastIndexOf_last:
  "c \<notin> set t \<Longrightarrow> lastIndexOf (p @ c # t) c = int (length p)"
  by (simp add: lastIndexOf_def lastIndexOf_from_last)

lemma substring_suffix: "suffix (substring s i) s"
  by (simp add: substring_def suffix_drop)

lemma substring_from_last_dot:
  assumes "CHR ''.'' \<notin> set t"
  shows "substring (p @ CHR ''.'' # t) (lastIndexOf (p @ CHR ''.'' # t) (CHR ''.'')) = CHR ''.'' # t"
  using assms by (simp add: lastIndexOf_last substring_def)

lemma extension_is_suffix:
  assumes "CHR ''.'' \<notin> set t"
  shows "substring s (lastIndexOf s (CHR ''.'')) = CHR ''.'' # t \<longleftrightarrow> suffix (CHR ''.'' # t) s"
proof
  assume "substring s (lastIndexOf s (CHR ''.'')) = CHR ''.'' # t"
  then show "suffix (CHR ''.'' # t) s"
    using substring_suffix [of s "lastIndexOf s (CHR ''.'')"] by simp
next
  assume "suffix (CHR ''.'' # t) s"
  then obtain p where "s = p @ CHR ''.'' # t"
    by (auto simp: suffix_def)
  then show "substring s (lastIndexOf s (CHR ''.'')) = CHR ''.'' # t"
    using assms by (simp add: substring_from_last_dot)
qed

lemma fileExtension_allowed:
  "fileExtension f \<in> set allowedExtensions \<longleftrightarrow>
     suffix ''.pdf'' (toLowerCase (file_name f)) \<or> suffix ''.txt'' (toLowerCase (file_name f))"
proof -
  have no_dot_pdf: "CHR ''.'' \<notin> set ''pdf''" and no_dot_txt: "CHR ''.'' \<notin> set ''txt''"
    by simp_all
  show ?thesis
    using extension_is_suffix [OF no_dot_pdf, of "toLowerCase (file_name f)"]
      extension_is_suffix [OF no_dot_txt, of "toLowerCase (file_name f)"]
    by (simp add: fileExtension_def allowedExtensions_def Let_def)
qed

lemma handleFileSelect_cases:
  "handleFileSelect (Some f) s =
     (if (suffix ''.pdf'' (toLowerCase (file_name f)) \<or> suffix ''.txt'' (toLowerCase (file_name f)))
         \<and> file_size f \<le> 10 * 1024 * 1024
      then s\<lparr>selectedUploadFile := Some f, fileError := None\<rparr>
      else s\<lparr>selectedUploadFile := None,
             fileError := Some (if suffix ''.pdf'' (toLowerCase (file_name f))
                                   \<or> suffix ''.txt'' (toLowerCase (file_name f))
                                then FileTooLarge (file_size f) else InvalidFileType)\<rparr>)"
  by (simp add: handleFileSelect_def fileExtension_allowed maxSize_def Let_def)

text \<open>
  C10. A candidate file becomes the selected file exactly when its name,
  compared without regard to case, ends in \<open>.pdf\<close> or \<open>.txt\<close> and its size is at
  most 10 * 1024 * 1024 bytes, and then no error is shown. Every other candidate
  leaves the selected file \<open>null\<close> and sets an error message.
\<close>

theorem handleFileSelect_accepts_only_valid:
  "handleFileSelect (Some f) s =
     (if (suffix ''.pdf'' (toLowerCase (file_name f)) \<or> suffix ''.txt'' (toLowerCase (file_name f)))
         \<and> file_size f \<le> 10 * 1024 * 1024
      then s\<lparr>selectedUploadFile := Some f, fileError := None\<rparr>
      else s\<lparr>selectedUploadFile := None,
             fileError := Some (if suffix ''.pdf'' (toLowerCase (file_name f))
                                   \<or> suffix ''.txt'' (toLowerCase (file_name f))
                                then FileTooLarge (file_size f) else InvalidFileType)\<rparr>)"
  by (rule handleFileSelect_cases)

section \<open>Malformed stored content is read as no content\<close>

lemma loadActiveSession_cases:
  "loadActiveSession s =
     (case finscope_active_session s of
        Some (Json (Some parsed)) \<Rightarrow> Returns (restore_session parsed s)
      | _ \<Rightarrow> Returns s)"
  by (simp add: loadActiveSession_def JSON_parse_def truthy_text_def provider_setSecWorkflowData_def
      restore_session_def Let_def split: option.split stored.split)

lemma init_uploadMetadata_value:
  "init_uploadMetadata s = Inr (stored_value (finscope_upload_meta s))"
  by (simp add: init_uploadMetadata_def stored_value_def JSON_parse_def truthy_text_def
      split: option.split stored.split)

lemma init_uploadAnalysisData_value:
  "init_uploadAnalysisData s = Inr (stored_value (finscope_upload_data s))"
  by (simp add: init_uploadAnalysisData_def stored_value_def JSON_parse_def truthy_text_def
      split: option.split stored.split)

lemma restore_session_fields:
  "restore_session parsed s =
     s\<lparr>analysisData := (case sr_analysisData parsed of Some a \<Rightarrow> Some a | None \<Rightarrow> analysisData s),
       selectionMetadata :=
         (case sr_selectionMetadata parsed of Some m \<Rightarrow> Some m | None \<Rightarrow> selectionMetadata s)\<rparr>"
  by (simp add: restore_session_def split: option.split)

lemma mount_loaded_context:
  "WorkflowProvider_mount s = Returns (loaded_context s)"
proof -
  let ?t = "s\<lparr>secWorkflowData := None, analysisData := None, selectionMetadata := None,
      analysisLoading := False, uploadMetadata := stored_value (finscope_upload_meta s),
      selectedUploadFile := None,
      uploadAnalysisData := stored_value (finscope_upload_data s)\<rparr>"
  have mount: "WorkflowProvider_mount s = loadActiveSession ?t"
    by (simp add: WorkflowProvider_mount_def init_uploadMetadata_value
        init_uploadAnalysisData_value)
  have key: "finscope_active_session ?t = finscope_active_session s"
    by simp
  show ?thesis
  proof (cases "finscope_active_session s")
    case None
    then show ?thesis
      by (simp add: mount loadActiveSession_cases loaded_context_def stored_value_def)
  next
    case (Some stored)
    show ?thesis
    proof (cases stored)
      case (Malformed t)
      with Some show ?thesis
        by (simp add: mount loadActiveSession_cases loaded_context_def stored_value_def)
    next
      case (Json v)
      show ?thesis
      proof (cases v)
        case None
        with Some Json show ?thesis
          by (simp add: mount loadActiveSession_cases loaded_context_def stored_value_def)
      next
        case (Some parsed)
        with \<open>finscope_active_session s = Some stored\<close> Json show ?thesis
          by (simp add: mount loadActiveSession_cases restore_session_fields loaded_context_def
              stored_value_def split: option.split)
      qed
    qed
  qed
qed

lemma loaded_context_without_malformed:
  "loaded_context (without_malformed s) = without_malformed (loaded_context s)"
proof -
  have "stored_value (finscope_active_session (without_malformed s))
      = stored_value (finscope_active_session s)"
    "stored_value (finscope_upload_meta (without_malformed s))
      = stored_value (finscope_upload_meta s)"
    "stored_value (finscope_upload_data (without_malformed s))
      = stored_value (finscope_upload_data s)"
    by (simp_all add: without_malformed_def stored_value_def split: option.split stored.split)
  then show ?thesis
    by (simp add: loaded_context_def without_malformed_def)
qed

text \<open>
  C7. Mounting the provider never throws: it returns the state in which every
  context value is what its key holds, read with malformed text counting as
  nothing stored, and in which nothing else (the store, the alerts) has
  changed. So a key with malformed text loads as \<open>null\<close>, and a store with
  malformed keys is loaded exactly as the store without those keys.
\<close>

theorem mount_malformed_as_absent:
  "WorkflowProvider_mount s = Returns (loaded_context s)
   \<and> WorkflowProvider_mount (without_malformed s) = Returns (without_malformed (loaded_context s))
   \<and> alerts (loaded_context s) = alerts s
   \<and> (finscope_active_session s = Some (Malformed t) \<longrightarrow>
        analysisData (loaded_context s) = None \<and> selectionMetadata (loaded_context s) = None)
   \<and> (finscope_upload_meta s = Some (Malformed t) \<longrightarrow> uploadMetadata (loaded_context s) = None)
   \<and> (finscope_upload_data s = Some (Malformed t) \<longrightarrow>
        uploadAnalysisData (loaded_context s) = None)"
proof -
  have "WorkflowProvider_mount (without_malformed s) = Returns (without_malformed (loaded_context s))"
    using mount_loaded_context [of "without_malformed s"]
    by (simp add: loaded_context_without_malformed)
  moreover have "alerts (loaded_context s) = alerts s"
    by (simp add: loaded_context_def)
  moreover have "finscope_active_session s = Some (Malformed t) \<longrightarrow>
        analysisData (loaded_context s) = None \<and> selectionMetadata (loaded_context s) = None"
    by (simp add: loaded_context_def stored_value_def)
  moreover have "finscope_upload_meta s = Some (Malformed t) \<longrightarrow>
        uploadMetadata (loaded_context s) = None"
    by (simp add: loaded_context_def stored_value_def)
  moreover have "finscope_upload_data s = Some (Malformed t) \<longrightarrow>
        uploadAnalysisData (loaded_context s) = None"
    by (simp add: loaded_context_def stored_value_def)
  ultimately show ?thesis
    using mount_loaded_context by blast
qed

theorem mount_malformed_as_absent_witness:
  "finscope_active_session corrupt_store = Some (Malformed ''{analysisData:'')
   \<and> finscope_upload_meta corrupt_store = Some (Malformed ''{'')
   \<and> finscope_upload_data corrupt_store = Some (Malformed ''undefined'')
   \<and> analysisData corrupt_store = Some session1
   \<and> WorkflowProvider_mount corrupt_store = Returns (corrupt_store\<lparr>analysisData := None\<rparr>)
   \<and> alerts (corrupt_store\<lparr>analysisData := None\<rparr>) = [''earlier alert'']"
proof -
  have keys: "finscope_active_session corrupt_store = Some (Malformed ''{analysisData:'')"
    "finscope_upload_meta corrupt_store = Some (Malformed ''{'')"
    "finscope_upload_data corrupt_store = Some (Malformed ''undefined'')"
    "analysisData corrupt_store = Some session1"
    "alerts corrupt_store = [''earlier alert'']"
    by (simp_all add: corrupt_store_def)
  have "loaded_context corrupt_store = corrupt_store\<lparr>analysisData := None\<rparr>"
    by (simp add: loaded_context_def stored_value_def corrupt_store_def app0_def)
  with keys show ?thesis
    using mount_malformed_as_absent [of corrupt_store "''{''"]
    by simp
qed

section \<open>The SEC workflow setter and \<open>clearActiveSession\<close>\<close>

text \<open>
  After \<open>updateSecWorkflowData\<close> the selection metadata is the projection of
  the workflow data, and null exactly when the workflow data is.
\<close>

lemma updateSecWorkflowData_in_sync:
  "secWorkflowData (updateSecWorkflowData d s) = d
   \<and> selectionMetadata (updateSecWorkflowData d s) =
       map_option (\<lambda>w. \<lparr>ticker = ticker w, company_name = company_name w,
                          selected_filing = selected_filing w\<rparr>) d"
  by (simp add: updateSecWorkflowData_def Let_def split: option.split)

text \<open>
  C8. \<open>clearActiveSession\<close> breaks that correspondence: called when workflow
  data is set, it nulls \<open>analysisData\<close> and \<open>selectionMetadata\<close> and then
  throws a \<open>ReferenceError\<close> at \<open>setSecWorkflowData(null)\<close>, so the workflow
  data stays set while the selection metadata is null, and the stored record is
  not removed by it.
\<close>

theorem clearActiveSession_leaves_workflow_data:
  "clearActiveSession (updateSecWorkflowData (Some (acme_selection filing1)) app0)
     = Throws ReferenceError (app0\<lparr>secWorkflowData := Some (acme_selection filing1)\<rparr>)
   \<and> selectionMetadata (app0\<lparr>secWorkflowData := Some (acme_selection filing1)\<rparr>) = None
   \<and> secWorkflowData (app0\<lparr>secWorkflowData := Some (acme_selection filing1)\<rparr>) \<noteq> None"
  by (simp add: clearActiveSession_def updateSecWorkflowData_def provider_setSecWorkflowData_def
      app0_def Let_def)

section \<open>The saved record and the three context values\<close>

lemma saveActiveSession_all_null:
  assumes "analysisData s = None" and "selectionMetadata s = None" and "secWorkflowData s = None"
  shows "saveActiveSession w now s = Returns (s\<lparr>finscope_active_session := None\<rparr>)"
  using assms by (simp add: saveActiveSession_def Let_def)

lemma saveActiveSession_stored:
  assumes "analysisData s \<noteq> None \<or> selectionMetadata s \<noteq> None \<or> secWorkflowData s \<noteq> None"
  shows "saveActiveSession Stored now s =
           Returns (s\<lparr>finscope_active_session :=
                       Some (Json (Some \<lparr>sr_analysisData = analysisData s,
                                          sr_selectionMetadata = selectionMetadata s,
                                          sr_secWorkflowData = secWorkflowData s,
                                          sr_timestamp = now\<rparr>))\<rparr>)"
  using assms
  by (simp add: saveActiveSession_def setItem_active_session_def JSON_stringify_def Let_def)

lemma saveActiveSession_refused:
  assumes "analysisData s \<noteq> None \<or> selectionMetadata s \<noteq> None \<or> secWorkflowData s \<noteq> None"
  shows "saveActiveSession QuotaExceeded now s = Returns s"
  using assms
  by (simp add: saveActiveSession_def setItem_active_session_def Let_def)

text \<open>
  C9, as stated, fails: with analysis data set and nothing stored, a save whose
  write the browser refuses leaves the store without a record although a
  context value is not null.
\<close>

theorem saveActiveSession_refused_write_counterexample:
  "analysisData (app0\<lparr>analysisData := Some session1\<rparr>) \<noteq> None
   \<and> saveActiveSession QuotaExceeded ''2026-01-01T00:00:00.000Z''
         (app0\<lparr>analysisData := Some session1\<rparr>)
       = Returns (app0\<lparr>analysisData := Some session1\<rparr>)
   \<and> finscope_active_session (app0\<lparr>analysisData := Some session1\<rparr>) = None"
  by (simp add: saveActiveSession_refused app0_def)

text \<open>
  C9, amended. The save effect never throws. When \<open>analysisData\<close>,
  \<open>selectionMetadata\<close> and \<open>secWorkflowData\<close> are all null it removes the
  record and changes nothing else. When one of them is not null it makes one
  write of a record holding the three values and the timestamp: if the browser
  stores it, the record is exactly that; if the browser refuses it, the error
  is logged and the store is left as it was.
\<close>

theorem saveActiveSession_record_iff_data:
  "(analysisData s = None \<and> selectionMetadata s = None \<and> secWorkflowData s = None \<longrightarrow>
        saveActiveSession w now s = Returns (s\<lparr>finscope_active_session := None\<rparr>))
   \<and> (analysisData s \<noteq> None \<or> selectionMetadata s \<noteq> None \<or> secWorkflowData s \<noteq> None \<longrightarrow>
        saveActiveSession Stored now s =
          Returns (s\<lparr>finscope_active_session :=
                      Some (Json (Some \<lparr>sr_analysisData = analysisData s,
                                         sr_selectionMetadata = selectionMetadata s,
                                         sr_secWorkflowData = secWorkflowData s,
                                         sr_timestamp = now\<rparr>))\<rparr>)
        \<and> saveActiveSession QuotaExceeded now s = Returns s)"
  using saveActiveSession_all_null saveActiveSession_stored saveActiveSession_refused
  by blast

theorem saveActiveSession_record_iff_data_witness:
  "saveActiveSession QuotaExceeded ''2026-01-01T00:00:00.000Z''
       (app0\<lparr>finscope_active_session := Some (Malformed ''stale'')\<rparr>)
     = Returns app0
   \<and> saveActiveSession Stored ''2026-01-01T00:00:00.000Z'' (app0\<lparr>analysisData := Some session1\<rparr>)
     = Returns (app0\<lparr>analysisData := Some session1,
            finscope_active_session :=
              Some (Json (Some \<lparr>sr_analysisData = Some session1, sr_selectionMetadata = None,
                                 sr_secWorkflowData = None,
                                 sr_timestamp = ''2026-01-01T00:00:00.000Z''\<rparr>))\<rparr>)
   \<and> saveActiveSession QuotaExceeded ''2026-01-01T00:00:00.000Z''
       (app0\<lparr>analysisData := Some session1\<rparr>)
     = Returns (app0\<lparr>analysisData := Some session1\<rparr>)"
  using saveActiveSession_record_iff_data [of
      "app0\<lparr>finscope_active_session := Some (Malformed ''stale'')\<rparr>"
      QuotaExceeded "''2026-01-01T00:00:00.000Z''"]
    saveActiveSession_record_iff_data [of "app0\<lparr>analysisData := Some session1\<rparr>"
      Stored "''2026-01-01T00:00:00.000Z''"]
  by (simp add: app0_def)

section \<open>Example states\<close>

lemma trim_acme: "trim ''Acme Corp'' = ''Acme Corp''"
  by (simp add: trim_def is_whitespace_def)

lemma trim_annual: "trim ''Annual report'' = ''Annual report''"
  by (simp add: trim_def is_whitespace_def)

lemma trim_10K: "trim ''10-K'' = ''10-K''"
  by (simp add: trim_def is_whitespace_def)

lemma trim_revenue: "trim ''Revenue?'' = ''Revenue?''"
  by (simp add: trim_def is_whitespace_def)

lemma upload_form_fields:
  "uploadMetadata upload_form = Some acme_form"
  "selectedUploadFile upload_form = Some report_small"
  by (simp_all add: upload_form_def)

lemma upload_submitted_state:
  "upload_handleStartAnalysis upload_created upload_form =
     upload_form\<lparr>
       isLoading := True,
       requests := [UploadAnalysis report_small ''Acme Corp'' (Some ''Annual report'')
                      (Some ''10-K'') (Some (string_of_int 2024))],
       uploadAnalysisData :=
         Some \<lparr>uad_sessionId = Some ''U1'', uad_executiveSummary = Some ''Summary'',
               uad_newsArticles = Some [], uad_submittedMetadata = Some acme_form,
               uad_submittedFileName = Some ''report.pdf''\<rparr>,
       analysisData :=
         Some \<lparr>ad_sessionId = Some ''U1'', ad_executiveSummary = ''Summary'',
               ad_newsArticles = [], ad_chatMessages = [], sourceType = Some ''upload''\<rparr>,
       submittedMetadata := Some acme_form,
       submittedFileName := Some ''report.pdf'',
       route := ''/analysis'',
       location_state := Some \<lparr>isUpload = True, loc_sessionId = None\<rparr>\<rparr>"
  by (simp add: upload_handleStartAnalysis_def upload_handleStartAnalysis_begin_def
      upload_handleStartAnalysis_resume_def upload_form_def upload_created_def app0_def
      acme_form_def report_small_def trim_acme navigate_def spread_metadata_def or_empty_def Let_def)

lemma upload_submitted_active:
  "upload_sessionId upload_submitted \<noteq> None \<and> isUploadSourceType upload_submitted
   \<and> submittedMetadata upload_submitted = Some acme_form
   \<and> selectedUploadFile upload_submitted = Some report_small
   \<and> uploadMetadata upload_submitted = Some acme_form
   \<and> submittedFileName upload_submitted = Some ''report.pdf''"
  by (simp add: upload_submitted_def upload_submitted_state upload_sessionId_def
      isUploadSourceType_def truthy_def upload_form_fields)

lemma upload_active_fields:
  "sessionId upload_active = Some ''U1''"
  "isUploadSourceType upload_active"
  "finscope_upload_meta upload_active = Some (Json (Some acme_form))"
  "finscope_upload_data upload_active \<noteq> None"
  "finscope_active_session upload_active \<noteq> None"
  "uploadMetadata upload_active = Some acme_form"
  using upload_submitted_active
  by (simp_all add: upload_active_def isUploadSourceType_def)

lemma app0_fields:
  "requests app0 = []" "alerts app0 = []" "chatMessages app0 = []" "\<not> sendingMessage app0"
  by (simp_all add: app0_def)

lemma upload_chat_ready_fields:
  "userInput upload_chat_ready = ''Revenue?''"
  "sessionId upload_chat_ready = Some ''U1''"
  "\<not> sendingMessage upload_chat_ready"
  "chatMessages upload_chat_ready = []"
  "analysisData upload_chat_ready =
     Some \<lparr>ad_sessionId = Some ''U1'', ad_executiveSummary = ''Summary'',
           ad_newsArticles = [], ad_chatMessages = [], sourceType = Some ''upload''\<rparr>"
proof -
  have form: "chatMessages upload_form = []" "\<not> sendingMessage upload_form"
    by (simp_all add: upload_form_def app0_fields)
  show "userInput upload_chat_ready = ''Revenue?''"
    "sessionId upload_chat_ready = Some ''U1''"
    "\<not> sendingMessage upload_chat_ready"
    "chatMessages upload_chat_ready = []"
    "analysisData upload_chat_ready =
       Some \<lparr>ad_sessionId = Some ''U1'', ad_executiveSummary = ''Summary'',
             ad_newsArticles = [], ad_chatMessages = [], sourceType = Some ''upload''\<rparr>"
    by (simp_all add: upload_chat_ready_def upload_active_def upload_submitted_def
        upload_submitted_state form)
qed

lemma sec_active_fields:
  "sessionId sec_active = Some ''S1''"
  "\<not> isUploadSourceType sec_active"
  "analysisData sec_active = Some session1"
  "secWorkflowData sec_active = Some (acme_selection filing1)"
  "selectionMetadata sec_active = Some (acme_selection filing1)"
  "selectedCompany sec_active = Some acme"
  "selectedFiling sec_active = Some filing1"
  "requests sec_active = []"
  "alerts sec_active = []"
  "finscope_active_session sec_active =
     Some (Json (Some \<lparr>sr_analysisData = Some session1,
                        sr_selectionMetadata = Some (acme_selection filing1),
                        sr_secWorkflowData = Some (acme_selection filing1),
                        sr_timestamp = ''t0''\<rparr>))"
  by (simp_all add: sec_active_def app0_fields isUploadSourceType_def session1_def)

lemma report_large_valid:
  "(suffix ''.pdf'' (toLowerCase (file_name report_large))
     \<or> suffix ''.txt'' (toLowerCase (file_name report_large)))
   \<and> file_size report_large \<le> 10 * 1024 * 1024"
  by (simp add: report_large_def toLowerCase_def lower_char_def suffix_def)

section \<open>Resume on the SEC page: same ticker and same filing\<close>

lemma hasAnalysisForCurrentSelection_eq:
  assumes "analysisData s = Some a" and "selectionMetadata s = Some m"
    and "selectedCompany s = Some co" and "selectedFiling s = Some f"
  shows "hasAnalysisForCurrentSelection s \<longleftrightarrow>
           ticker co = ticker m
           \<and> Some (accession_number f) = map_option accession_number (selected_filing m)"
  using assms by (simp add: hasAnalysisForCurrentSelection_def Let_def)

lemma sec_handleStartAnalysis_conflict:
  assumes "analysisData s = Some a" and "selectionMetadata s = Some m"
    and "selectedCompany s = Some co" and "selectedFiling s = Some f"
    and "\<not> hasAnalysisForCurrentSelection s"
  shows "sec_handleStartAnalysis r s =
            s\<lparr>conflictData :=
                 Some \<lparr>existingTicker = (if ticker m \<noteq> [] then ticker m else ''another company''),
                       currentTicker = ticker co,
                       currentFilingId = accession_number f\<rparr>,
               showConflictDialog := True\<rparr>"
proof -
  from assms have "ticker co \<noteq> ticker m
      \<or> Some (accession_number f) \<noteq> map_option accession_number (selected_filing m)"
    by (simp add: hasAnalysisForCurrentSelection_eq)
  then have "ticker m \<noteq> ticker co
      \<or> map_option accession_number (selected_filing m) \<noteq> Some (accession_number f)"
    by metis
  with assms(1-4) show ?thesis
    by (simp add: sec_handleStartAnalysis_def Let_def)
qed

text \<open>
  The analysis page takes the same decision on its side: with cached analysis
  data that has a session, it sends no request when ticker and accession number
  agree with the stored selection, and posts a new start-analysis otherwise.
\<close>

lemma startAnalysis_begin_sec_cached:
  assumes "secWorkflowData s = Some w" and "selected_filing w = Some f"
    and "analysisData s = Some a" and "truthy (ad_sessionId a)"
    and "selectionMetadata s = Some m"
  shows "requests (startAnalysis_begin s) =
           (if ticker m = ticker w
               \<and> Some (accession_number f) = map_option accession_number (selected_filing m)
            then requests s
            else requests s @ [StartAnalysis (ticker w) (company_name w) (accession_number f)])"
  using assms
  by (simp add: startAnalysis_begin_def Let_def)

text \<open>
  C3. With an active SEC session (analysis data and its stored selection) and a
  pending selection (company and filing), the page offers "Resume Analysis"
  exactly when the pending ticker and accession number equal the stored ones;
  the company name, form type and filing date of the pending selection play no
  part. When either differs, "Start Analysis" opens the conflict dialog and does
  nothing else.
\<close>

theorem sec_resume_iff_same_ticker_and_filing:
  assumes "analysisData s = Some a" and "selectionMetadata s = Some m"
    and "selectedCompany s = Some co" and "selectedFiling s = Some f"
  shows "(hasAnalysisForCurrentSelection s \<longleftrightarrow>
            ticker co = ticker m
            \<and> Some (accession_number f) = map_option accession_number (selected_filing m))
    \<and> hasAnalysisForCurrentSelection
          (s\<lparr>selectedCompany := Some (co\<lparr>company_name := n\<rparr>),
             selectedFiling := Some (f\<lparr>form_type := ft, filing_date := fd\<rparr>)\<rparr>)
        = hasAnalysisForCurrentSelection s
    \<and> (\<not> hasAnalysisForCurrentSelection s \<longrightarrow>
          sec_handleStartAnalysis r s =
            s\<lparr>conflictData :=
                 Some \<lparr>existingTicker = (if ticker m \<noteq> [] then ticker m else ''another company''),
                       currentTicker = ticker co,
                       currentFilingId = accession_number f\<rparr>,
               showConflictDialog := True\<rparr>)"
proof -
  have one: "hasAnalysisForCurrentSelection s \<longleftrightarrow>
            ticker co = ticker m
            \<and> Some (accession_number f) = map_option accession_number (selected_filing m)"
    using assms by (rule hasAnalysisForCurrentSelection_eq)
  have two: "hasAnalysisForCurrentSelection
          (s\<lparr>selectedCompany := Some (co\<lparr>company_name := n\<rparr>),
             selectedFiling := Some (f\<lparr>form_type := ft, filing_date := fd\<rparr>)\<rparr>)
        = hasAnalysisForCurrentSelection s"
    using assms by (simp add: hasAnalysisForCurrentSelection_def Let_def)
  have three: "\<not> hasAnalysisForCurrentSelection s \<longrightarrow>
          sec_handleStartAnalysis r s =
            s\<lparr>conflictData :=
                 Some \<lparr>existingTicker = (if ticker m \<noteq> [] then ticker m else ''another company''),
                       currentTicker = ticker co,
                       currentFilingId = accession_number f\<rparr>,
               showConflictDialog := True\<rparr>"
    using assms sec_handleStartAnalysis_conflict by blast
  from one two three show ?thesis by blast
qed

theorem sec_resume_iff_same_ticker_and_filing_witness:
  "analysisData sec_active = Some session1
   \<and> selectionMetadata sec_active = Some (acme_selection filing1)
   \<and> selectedCompany sec_active = Some acme \<and> selectedFiling sec_active = Some filing1
   \<and> hasAnalysisForCurrentSelection sec_active
   \<and> hasAnalysisForCurrentSelection
        (sec_active\<lparr>selectedCompany := Some (acme\<lparr>company_name := ''ACME Inc.''\<rparr>),
                    selectedFiling := Some (filing1\<lparr>form_type := ''10-K/A'', filing_date := []\<rparr>)\<rparr>)
   \<and> selectedFiling sec_other_filing = Some filing2
   \<and> \<not> hasAnalysisForCurrentSelection sec_other_filing
   \<and> sec_handleStartAnalysis (HttpOk (JsonBody ())) sec_other_filing
       = sec_other_filing\<lparr>conflictData :=
                             Some \<lparr>existingTicker = ''ACME'', currentTicker = ''ACME'',
                                   currentFilingId = ''0002-24''\<rparr>,
                           showConflictDialog := True\<rparr>"
  using sec_resume_iff_same_ticker_and_filing
      [where s = sec_active and a = session1 and m = "acme_selection filing1" and co = acme
         and f = filing1 and n = "''ACME Inc.''" and ft = "''10-K/A''" and fd = "[]"
         and r = "HttpOk (JsonBody ())"]
    sec_resume_iff_same_ticker_and_filing
      [where s = sec_other_filing and a = session1 and m = "acme_selection filing1"
         and co = acme and f = filing2 and r = "HttpOk (JsonBody ())"]
  by (simp add: sec_active_fields sec_other_filing_def acme_def acme_selection_def
      filing1_def filing2_def)

section \<open>The upload dirty check\<close>

text \<open>
  C4, as stated, fails: after a submission of \<open>report.pdf\<close> with 1024 bytes,
  selecting a file of the same name with 2048 bytes leaves the form clean.
\<close>

theorem isDirty_ignores_file_size_counterexample:
  "selectedUploadFile (upload_handleStartAnalysis upload_created upload_form) = Some report_small
   \<and> selectedUploadFile
        (handleFileSelect (Some report_large) (upload_handleStartAnalysis upload_created upload_form))
       = Some report_large
   \<and> file_size report_large \<noteq> file_size report_small
   \<and> \<not> isDirty
         (handleFileSelect (Some report_large) (upload_handleStartAnalysis upload_created upload_form))"
proof -
  have form: "uploadMetadata upload_form = Some acme_form"
    "selectedUploadFile upload_form = Some report_small"
    by (simp_all add: upload_form_def)
  have sizes: "file_size report_large \<noteq> file_size report_small"
    by (simp add: report_large_def report_small_def)
  have name: "file_name report_large = ''report.pdf''"
    by (simp add: report_large_def)
  have "\<not> isDirty
         (handleFileSelect (Some report_large) (upload_handleStartAnalysis upload_created upload_form))"
    using report_large_valid
    by (simp add: handleFileSelect_cases upload_submitted_state form name
        isDirty_def upload_sessionId_def isUploadSourceType_def truthy_def or_empty_def
        acme_form_def trim_acme trim_annual trim_10K Let_def)
  moreover have "selectedUploadFile
        (handleFileSelect (Some report_large) (upload_handleStartAnalysis upload_created upload_form))
       = Some report_large"
    using report_large_valid by (simp add: handleFileSelect_cases)
  moreover have "selectedUploadFile (upload_handleStartAnalysis upload_created upload_form)
       = Some report_small"
    by (simp add: upload_submitted_state form)
  ultimately show ?thesis using sizes by blast
qed

text \<open>
  C4, amended. For an active upload session with submitted metadata, the form
  is dirty exactly when one of these differs from the submitted values: the
  trimmed company name, document title or document type, the year as text, or
  the name of the selected file. The size of the file takes no part.
\<close>

theorem isDirty_compares_metadata_and_file_name:
  assumes "upload_sessionId s \<noteq> None" and "isUploadSourceType s"
    and "submittedMetadata s = Some submitted"
  shows "(isDirty s \<longleftrightarrow>
           \<not> (trim (or_empty (Option.bind (uploadMetadata s) companyName))
                 = trim (or_empty (companyName submitted))
               \<and> trim (or_empty (Option.bind (uploadMetadata s) docTitle))
                 = trim (or_empty (docTitle submitted))
               \<and> trim (or_empty (Option.bind (uploadMetadata s) docType))
                 = trim (or_empty (docType submitted))
               \<and> year_text (Option.bind (uploadMetadata s) year) = year_text (year submitted)
               \<and> (case selectedUploadFile s of Some f \<Rightarrow> file_name f | None \<Rightarrow> [])
                 = or_empty (submittedFileName s)))
         \<and> isDirty (s\<lparr>selectedUploadFile :=
                         map_option (\<lambda>f. f\<lparr>file_size := n\<rparr>) (selectedUploadFile s)\<rparr>)
           = isDirty s"
proof -
  have "isDirty (s\<lparr>selectedUploadFile :=
                         map_option (\<lambda>f. f\<lparr>file_size := n\<rparr>) (selectedUploadFile s)\<rparr>)
           = isDirty s"
    by (cases "selectedUploadFile s")
      (simp_all add: isDirty_def upload_sessionId_def isUploadSourceType_def Let_def
        split: option.split)
  moreover have "isDirty s \<longleftrightarrow>
           \<not> (trim (or_empty (Option.bind (uploadMetadata s) companyName))
                 = trim (or_empty (companyName submitted))
               \<and> trim (or_empty (Option.bind (uploadMetadata s) docTitle))
                 = trim (or_empty (docTitle submitted))
               \<and> trim (or_empty (Option.bind (uploadMetadata s) docType))
                 = trim (or_empty (docType submitted))
               \<and> year_text (Option.bind (uploadMetadata s) year) = year_text (year submitted)
               \<and> (case selectedUploadFile s of Some f \<Rightarrow> file_name f | None \<Rightarrow> [])
                 = or_empty (submittedFileName s))"
    using assms by (auto simp: isDirty_def Let_def)
  ultimately show ?thesis by blast
qed

theorem isDirty_compares_metadata_and_file_name_witness:
  "upload_sessionId upload_submitted \<noteq> None \<and> isUploadSourceType upload_submitted
   \<and> submittedMetadata upload_submitted = Some acme_form
   \<and> \<not> isDirty upload_submitted
   \<and> \<not> isDirty (upload_submitted\<lparr>selectedUploadFile := Some (report_small\<lparr>file_size := 2048\<rparr>)\<rparr>)"
  using isDirty_compares_metadata_and_file_name [of upload_submitted acme_form 2048]
    upload_submitted_active
  by (simp add: or_empty_def report_small_def)

section \<open>Chat: a failed send\<close>

text \<open>
  For a send that passes the guard, the user message is at the end of the
  page's \<open>chatMessages\<close> as soon as the request is out; if the call fails with
  message \<open>m\<close>, the assistant message "Error: m" is appended to whatever
  \<open>chatMessages\<close> has become, and nothing is removed.
\<close>

lemma handleSendMessage_failure_appends:
  assumes "trim (userInput s) \<noteq> []" and "truthy (sessionId s)" and "\<not> sendingMessage s"
    and "settle r = Inl m"
  shows "chatMessages (handleSendMessage_begin now s)
           = chatMessages s @ [\<lparr>role = User, content = trim (userInput s), references = None,
                                 isError = False, timestamp = now\<rparr>]
       \<and> chatMessages (handleSendMessage now now' r s)
           = chatMessages s @ [\<lparr>role = User, content = trim (userInput s), references = None,
                                 isError = False, timestamp = now\<rparr>,
                               \<lparr>role = Assistant, content = ''Error: '' @ m, references = None,
                                 isError = True, timestamp = now'\<rparr>]
       \<and> chatMessages (handleSendMessage_resume s now' r s')
           = chatMessages s' @ [\<lparr>role = Assistant, content = ''Error: '' @ m, references = None,
                                  isError = True, timestamp = now'\<rparr>]
       \<and> analysisData (handleSendMessage now now' r s) = analysisData s"
  using assms
  by (simp add: handleSendMessage_def handleSendMessage_begin_def handleSendMessage_resume_def
      Let_def)

text \<open>
  For a session that is not an upload session the page renders that list, so
  there the transcript on screen ends with the user message and the error.
\<close>

lemma displayChatMessages_sec:
  assumes "\<not> isUploadSourceType s"
  shows "displayChatMessages s = chatMessages s"
proof (cases "analysisData s")
  case None
  then show ?thesis
    by (simp add: displayChatMessages_def)
next
  case (Some a)
  with assms show ?thesis
    by (simp add: displayChatMessages_def isUploadSourceType_def)
qed

text \<open>
  C2. For an upload session the page renders the messages of \<open>analysisData\<close>,
  which a send updates only when it succeeds. In the upload session \<open>U1\<close>
  with the message "Revenue?" typed, the send passes the guard; while the
  request is in flight, and after it has failed, the transcript on screen is
  still empty: it shows neither the user message nor the error, which are only
  in the page's own \<open>chatMessages\<close>.
\<close>

theorem upload_failed_send_not_displayed:
  "trim (userInput upload_chat_ready) \<noteq> [] \<and> truthy (sessionId upload_chat_ready)
   \<and> \<not> sendingMessage upload_chat_ready
   \<and> settle (Rejected ''Failed to fetch'' :: chat_data reply) = Inl ''Failed to fetch''
   \<and> displayChatMessages (handleSendMessage_begin ''t1'' upload_chat_ready) = []
   \<and> displayChatMessages
        (handleSendMessage ''t1'' ''t2'' (Rejected ''Failed to fetch'') upload_chat_ready) = []
   \<and> chatMessages
        (handleSendMessage ''t1'' ''t2'' (Rejected ''Failed to fetch'') upload_chat_ready)
       = [\<lparr>role = User, content = ''Revenue?'', references = None, isError = False,
           timestamp = ''t1''\<rparr>,
          \<lparr>role = Assistant, content = ''Error: Failed to fetch'', references = None,
           isError = True, timestamp = ''t2''\<rparr>]"
proof -
  have guard: "trim (userInput upload_chat_ready) \<noteq> []" "truthy (sessionId upload_chat_ready)"
    "\<not> sendingMessage upload_chat_ready"
    by (simp_all add: upload_chat_ready_fields trim_revenue truthy_def)
  have failed: "settle (Rejected ''Failed to fetch'' :: chat_data reply) = Inl ''Failed to fetch''"
    by simp
  have in_flight: "analysisData (handleSendMessage_begin ''t1'' upload_chat_ready)
      = analysisData upload_chat_ready"
    using guard by (simp add: handleSendMessage_begin_def Let_def)
  have after: "analysisData
        (handleSendMessage ''t1'' ''t2'' (Rejected ''Failed to fetch'') upload_chat_ready)
      = analysisData upload_chat_ready"
    and transcript: "chatMessages
        (handleSendMessage ''t1'' ''t2'' (Rejected ''Failed to fetch'') upload_chat_ready)
       = [\<lparr>role = User, content = ''Revenue?'', references = None, isError = False,
           timestamp = ''t1''\<rparr>,
          \<lparr>role = Assistant, content = ''Error: Failed to fetch'', references = None,
           isError = True, timestamp = ''t2''\<rparr>]"
    using handleSendMessage_failure_appends [OF guard failed, of "''t1''" "''t2''" upload_chat_ready]
    by (simp_all add: upload_chat_ready_fields trim_revenue)
  have "displayChatMessages (handleSendMessage_begin ''t1'' upload_chat_ready) = []"
    by (simp add: displayChatMessages_def in_flight upload_chat_ready_fields)
  moreover have "displayChatMessages
        (handleSendMessage ''t1'' ''t2'' (Rejected ''Failed to fetch'') upload_chat_ready) = []"
    by (simp add: displayChatMessages_def after upload_chat_ready_fields)
  ultimately show ?thesis
    using guard failed transcript by blast
qed

theorem upload_failed_send_not_displayed_witness:
  "displayChatMessages
     (handleSendMessage ''t1'' ''t2'' (Rejected ''Failed to fetch'') upload_chat_ready)
   \<noteq> chatMessages
     (handleSendMessage ''t1'' ''t2'' (Rejected ''Failed to fetch'') upload_chat_ready)"
  using upload_failed_send_not_displayed by simp

section \<open>End session\<close>

text \<open>
  C6. With a session on the analysis page: when the end-session call succeeds,
  the analysis data, workflow data, selection metadata and stored session record
  are cleared, for an upload session also the upload analysis data, the upload
  metadata and their two stored keys, and the page goes to the landing page
  without an alert. When the call fails with message \<open>m\<close>, nothing of the
  context or the store changes: the request is logged, the failure is shown in
  an alert and the dialog closes.
\<close>

theorem handleEndSessionConfirm_clears_only_on_success:
  assumes "truthy (sessionId s)"
  shows "(settle_unread r = None \<longrightarrow>
            analysisData (handleEndSessionConfirm r s) = None
            \<and> secWorkflowData (handleEndSessionConfirm r s) = None
            \<and> selectionMetadata (handleEndSessionConfirm r s) = None
            \<and> finscope_active_session (handleEndSessionConfirm r s) = None
            \<and> route (handleEndSessionConfirm r s) = ''/''
            \<and> alerts (handleEndSessionConfirm r s) = alerts s
            \<and> (isUploadSourceType s \<longrightarrow>
                  uploadAnalysisData (handleEndSessionConfirm r s) = None
                  \<and> uploadMetadata (handleEndSessionConfirm r s) = None
                  \<and> finscope_upload_data (handleEndSessionConfirm r s) = None
                  \<and> finscope_upload_meta (handleEndSessionConfirm r s) = None))
       \<and> (settle_unread r = Some m \<longrightarrow>
            handleEndSessionConfirm r s =
              s\<lparr>requests := requests s @ [EndSession (or_empty (sessionId s))],
                alerts := alerts s @ [''Failed to end session: '' @ m],
                endingSession := False,
                showEndSessionDialog := False\<rparr>)"
  using assms
  by (simp add: handleEndSessionConfirm_def handleEndSessionConfirm_begin_def
      handleEndSessionConfirm_resume_def updateSecWorkflowData_def navigate_def
      isUploadSourceType_def Let_def)

theorem handleEndSessionConfirm_clears_only_on_success_witness:
  "truthy (sessionId upload_active) \<and> isUploadSourceType upload_active
   \<and> settle_unread (HttpOk (JsonBody ()) :: unit reply) = None
   \<and> finscope_upload_meta upload_active \<noteq> None
   \<and> finscope_active_session upload_active \<noteq> None
   \<and> analysisData (handleEndSessionConfirm (HttpOk (JsonBody ())) upload_active) = None
   \<and> finscope_active_session (handleEndSessionConfirm (HttpOk (JsonBody ())) upload_active) = None
   \<and> uploadMetadata (handleEndSessionConfirm (HttpOk (JsonBody ())) upload_active) = None
   \<and> finscope_upload_meta (handleEndSessionConfirm (HttpOk (JsonBody ())) upload_active) = None
   \<and> finscope_upload_data (handleEndSessionConfirm (HttpOk (JsonBody ())) upload_active) = None
   \<and> truthy (sessionId sec_active)
   \<and> settle_unread (HttpNotOk 500 (JsonBody (Some ''Session not found'')) :: unit reply)
       = Some ''Session not found''
   \<and> handleEndSessionConfirm (HttpNotOk 500 (JsonBody (Some ''Session not found''))) sec_active
       = sec_active\<lparr>requests := [EndSession ''S1''],
                    alerts := [''Failed to end session: Session not found''],
                    endingSession := False, showEndSessionDialog := False\<rparr>"
  using handleEndSessionConfirm_clears_only_on_success
      [of upload_active "HttpOk (JsonBody ())" "[]"]
    handleEndSessionConfirm_clears_only_on_success
      [of sec_active "HttpNotOk 500 (JsonBody (Some ''Session not found''))" "''Session not found''"]
  by (simp add: upload_active_fields sec_active_fields truthy_def or_empty_def)

section \<open>Replacing a session on the SEC search page\<close>

lemma sec_other_filing_fields:
  "analysisData sec_other_filing = Some session1"
  "selectedCompany sec_other_filing = Some acme"
  "selectedFiling sec_other_filing = Some filing2"
  "requests sec_other_filing = []"
  "finscope_active_session sec_other_filing \<noteq> None"
  "analysis_sessionId sec_other_filing = Some ''S1''"
  by (simp_all add: sec_other_filing_def sec_active_fields analysis_sessionId_def
      session1_def truthy_def)

lemma proceedWithNewAnalysis_resume_result:
  assumes "selectedCompany c = Some co" and "selectedFiling c = Some f"
  shows "proceedWithNewAnalysis_resume c r s =
           s\<lparr>analysisData := None,
             secWorkflowData :=
               Some \<lparr>ticker = ticker co, company_name = company_name co, selected_filing = Some f\<rparr>,
             selectionMetadata :=
               Some \<lparr>ticker = ticker co, company_name = company_name co, selected_filing = Some f\<rparr>,
             finscope_active_session := None,
             showConflictDialog := False, conflictData := None,
             route := ''/analysis'', location_state := None\<rparr>"
proof -
  have logged: "end_session_logged r x = x" for x
    by (cases r) simp_all
  show ?thesis
  proof (cases "analysis_sessionId c")
    case None
    with assms show ?thesis
      by (simp add: proceedWithNewAnalysis_resume_def updateSecWorkflowData_def navigate_def Let_def)
  next
    case (Some sid)
    with assms show ?thesis
      by (simp add: proceedWithNewAnalysis_resume_def updateSecWorkflowData_def navigate_def
          logged Let_def)
  qed
qed

lemma proceedWithNewAnalysis_result:
  assumes "selectedCompany s = Some co" and "selectedFiling s = Some f"
  shows "proceedWithNewAnalysis r s =
           s\<lparr>requests := (case analysis_sessionId s of
                             Some sid \<Rightarrow> requests s @ [EndSession sid]
                           | None \<Rightarrow> requests s),
             analysisData := None,
             secWorkflowData :=
               Some \<lparr>ticker = ticker co, company_name = company_name co, selected_filing = Some f\<rparr>,
             selectionMetadata :=
               Some \<lparr>ticker = ticker co, company_name = company_name co, selected_filing = Some f\<rparr>,
             finscope_active_session := None,
             showConflictDialog := False, conflictData := None,
             route := ''/analysis'', location_state := None\<rparr>"
proof (cases "analysis_sessionId s")
  case None
  with assms show ?thesis
    by (simp add: proceedWithNewAnalysis_def proceedWithNewAnalysis_begin_def
        proceedWithNewAnalysis_resume_def updateSecWorkflowData_def navigate_def Let_def)
next
  case (Some sid)
  have logged: "end_session_logged r x = x" for x
    by (cases r) simp_all
  from Some assms show ?thesis
    by (simp add: proceedWithNewAnalysis_def proceedWithNewAnalysis_begin_def
        proceedWithNewAnalysis_resume_def updateSecWorkflowData_def navigate_def logged Let_def)
qed

lemma sec_replaced_state:
  "sec_replaced =
     sec_other_filing\<lparr>requests := [EndSession ''S1''],
       analysisData := None,
       secWorkflowData := Some (acme_selection filing2),
       selectionMetadata := Some (acme_selection filing2),
       finscope_active_session := None,
       showConflictDialog := False, conflictData := None,
       route := ''/analysis'', location_state := None\<rparr>"
  by (simp add: sec_replaced_def
      proceedWithNewAnalysis_result [where co = acme and f = filing2]
      sec_other_filing_fields acme_def acme_selection_def)

lemma startAnalysis_begin_sec_new:
  assumes "secWorkflowData s = Some w" and "selected_filing w = Some f"
    and "analysisData s = None"
  shows "startAnalysis_begin s =
           s\<lparr>loading := True, error := None,
             requests := requests s @
               [StartAnalysis (ticker w) (company_name w) (accession_number f)]\<rparr>"
  using assms
  by (simp add: startAnalysis_begin_def isUploadSourceType_def Let_def)

lemma startAnalysis_begin_after_resume:
  assumes "selectedCompany c = Some co" and "selectedFiling c = Some f"
  shows "startAnalysis_begin (proceedWithNewAnalysis_resume c r s) =
           (proceedWithNewAnalysis_resume c r s)
             \<lparr>loading := True, error := None,
              requests := requests s @
                [StartAnalysis (ticker co) (company_name co) (accession_number f)]\<rparr>"
proof -
  let ?w = "\<lparr>ticker = ticker co, company_name = company_name co, selected_filing = Some f\<rparr>"
  have w: "secWorkflowData (proceedWithNewAnalysis_resume c r s) = Some ?w"
    and a: "analysisData (proceedWithNewAnalysis_resume c r s) = None"
    and q: "requests (proceedWithNewAnalysis_resume c r s) = requests s"
    by (simp_all add: proceedWithNewAnalysis_resume_result [OF assms])
  have f: "selected_filing ?w = Some f"
    by simp
  show ?thesis
    using startAnalysis_begin_sec_new [OF w f a] by (simp add: q)
qed

text \<open>
  C1, as stated, fails: with session \<open>S1\<close> active and another filing selected,
  "Start New" whose end-session call is rejected still clears the analysis data
  and the stored record and installs the new selection, and the analysis page
  then posts the start-analysis for it.
\<close>

theorem replace_proceeds_after_failed_end_counterexample:
  "settle_unread (Rejected ''Failed to fetch'' :: unit reply) = Some ''Failed to fetch''
   \<and> analysisData sec_other_filing = Some session1
   \<and> finscope_active_session sec_other_filing \<noteq> None
   \<and> analysisData (proceedWithNewAnalysis (Rejected ''Failed to fetch'') sec_other_filing) = None
   \<and> finscope_active_session
        (proceedWithNewAnalysis (Rejected ''Failed to fetch'') sec_other_filing) = None
   \<and> secWorkflowData (proceedWithNewAnalysis (Rejected ''Failed to fetch'') sec_other_filing)
       = Some (acme_selection filing2)
   \<and> requests (startAnalysis_begin
        (proceedWithNewAnalysis (Rejected ''Failed to fetch'') sec_other_filing))
       = [EndSession ''S1'', StartAnalysis ''ACME'' ''Acme Corp'' ''0002-24'']"
proof -
  have w: "secWorkflowData sec_replaced = Some (acme_selection filing2)"
    and a: "analysisData sec_replaced = None"
    and st: "finscope_active_session sec_replaced = None"
    and rq: "requests sec_replaced = [EndSession ''S1'']"
    by (simp_all add: sec_replaced_state)
  have f: "selected_filing (acme_selection filing2) = Some filing2"
    by (simp add: acme_selection_def)
  have "requests (startAnalysis_begin sec_replaced)
       = [EndSession ''S1'', StartAnalysis ''ACME'' ''Acme Corp'' ''0002-24'']"
    by (simp add: startAnalysis_begin_sec_new [OF w f a] rq acme_selection_def filing2_def)
  with w a st show ?thesis
    by (simp add: sec_replaced_def sec_other_filing_fields)
qed

text \<open>
  C1, amended. On the SEC search page, replacing requests end-session for the
  active session's id when there is one and then, whatever that call returns,
  clears the analysis data, the workflow data and the stored record, installs
  the new selection and goes to the analysis page, whose effect then posts the
  start-analysis for the new selection.
\<close>

theorem replace_does_not_wait_for_end:
  assumes "selectedCompany s = Some co" and "selectedFiling s = Some f"
  shows "proceedWithNewAnalysis r s =
           s\<lparr>requests := (case analysis_sessionId s of
                             Some sid \<Rightarrow> requests s @ [EndSession sid]
                           | None \<Rightarrow> requests s),
             analysisData := None,
             secWorkflowData :=
               Some \<lparr>ticker = ticker co, company_name = company_name co, selected_filing = Some f\<rparr>,
             selectionMetadata :=
               Some \<lparr>ticker = ticker co, company_name = company_name co, selected_filing = Some f\<rparr>,
             finscope_active_session := None,
             showConflictDialog := False, conflictData := None,
             route := ''/analysis'', location_state := None\<rparr>
       \<and> startAnalysis_begin (proceedWithNewAnalysis r s) =
           (proceedWithNewAnalysis r s)
             \<lparr>loading := True, error := None,
              requests := requests (proceedWithNewAnalysis r s) @
                [StartAnalysis (ticker co) (company_name co) (accession_number f)]\<rparr>"
proof -
  have "startAnalysis_begin (proceedWithNewAnalysis r s) =
           (proceedWithNewAnalysis r s)
             \<lparr>loading := True, error := None,
              requests := requests (proceedWithNewAnalysis r s) @
                [StartAnalysis (ticker co) (company_name co) (accession_number f)]\<rparr>"
    using startAnalysis_begin_after_resume [OF assms, of r "proceedWithNewAnalysis_begin s"]
    by (simp add: proceedWithNewAnalysis_def proceedWithNewAnalysis_resume_result [OF assms])
  with proceedWithNewAnalysis_result [OF assms] show ?thesis
    by blast
qed

theorem replace_does_not_wait_for_end_witness:
  "selectedCompany sec_other_filing = Some acme \<and> selectedFiling sec_other_filing = Some filing2
   \<and> proceedWithNewAnalysis (HttpNotOk 500 (BadJson ''Unexpected token'')) sec_other_filing
       = sec_other_filing\<lparr>requests := [EndSession ''S1''],
           analysisData := None,
           secWorkflowData := Some (acme_selection filing2),
           selectionMetadata := Some (acme_selection filing2),
           finscope_active_session := None,
           showConflictDialog := False, conflictData := None,
           route := ''/analysis'', location_state := None\<rparr>
   \<and> requests (startAnalysis_begin
        (proceedWithNewAnalysis (HttpNotOk 500 (BadJson ''Unexpected token'')) sec_other_filing))
       = [EndSession ''S1'', StartAnalysis ''ACME'' ''Acme Corp'' ''0002-24'']"
proof -
  let ?r = "HttpNotOk 500 (BadJson ''Unexpected token'') :: unit reply"
  have co: "selectedCompany sec_other_filing = Some acme"
    and f: "selectedFiling sec_other_filing = Some filing2"
    by (simp_all add: sec_other_filing_fields)
  note both = replace_does_not_wait_for_end [OF co f, of ?r]
  have state: "proceedWithNewAnalysis ?r sec_other_filing
       = sec_other_filing\<lparr>requests := [EndSession ''S1''],
           analysisData := None,
           secWorkflowData := Some (acme_selection filing2),
           selectionMetadata := Some (acme_selection filing2),
           finscope_active_session := None,
           showConflictDialog := False, conflictData := None,
           route := ''/analysis'', location_state := None\<rparr>"
    using both [THEN conjunct1]
    by (simp add: sec_other_filing_fields acme_def acme_selection_def)
  have sent: "requests (proceedWithNewAnalysis ?r sec_other_filing) = [EndSession ''S1'']"
    by (simp add: state)
  have "requests (startAnalysis_begin (proceedWithNewAnalysis ?r sec_other_filing))
       = requests (proceedWithNewAnalysis ?r sec_other_filing) @
           [StartAnalysis (ticker acme) (company_name acme) (accession_number filing2)]"
    by (subst both [THEN conjunct2]) simp
  then have "requests (startAnalysis_begin (proceedWithNewAnalysis ?r sec_other_filing))
       = [EndSession ''S1'', StartAnalysis ''ACME'' ''Acme Corp'' ''0002-24'']"
    by (simp add: sent acme_def filing2_def)
  with co f state show ?thesis
    by blast
qed

section \<open>"Start New" pressed twice\<close>

text \<open>
  C5. On the conflict dialog of the SEC search page, with session \<open>S1\<close>
  active and the second filing selected, "Start New" is pressed twice before
  the first end-session call is answered; the dialog stays open until then.
  Both calls of \<open>proceedWithNewAnalysis\<close> send an end-session request for
  \<open>S1\<close>. When the first is answered the page goes to the analysis page, whose
  effect posts start-analysis; when the second is answered the workflow data
  is set again, the effect runs again while \<open>analysisData\<close> is still null,
  and a second start-analysis for the same selection is posted while the first
  is in flight.
\<close>

theorem start_new_twice_sends_duplicates:
  "requests (proceedWithNewAnalysis_begin (proceedWithNewAnalysis_begin sec_other_filing))
     = [EndSession ''S1'', EndSession ''S1'']
   \<and> requests
        (startAnalysis_begin
          (proceedWithNewAnalysis_resume sec_other_filing (HttpOk (JsonBody ()))
            (startAnalysis_begin
              (proceedWithNewAnalysis_resume sec_other_filing (HttpOk (JsonBody ()))
                (proceedWithNewAnalysis_begin (proceedWithNewAnalysis_begin sec_other_filing))))))
     = [EndSession ''S1'', EndSession ''S1'',
        StartAnalysis ''ACME'' ''Acme Corp'' ''0002-24'',
        StartAnalysis ''ACME'' ''Acme Corp'' ''0002-24'']"
proof -
  have co: "selectedCompany sec_other_filing = Some acme"
    and f: "selectedFiling sec_other_filing = Some filing2"
    by (simp_all add: sec_other_filing_fields)
  have twice: "requests (proceedWithNewAnalysis_begin (proceedWithNewAnalysis_begin sec_other_filing))
     = [EndSession ''S1'', EndSession ''S1'']"
    by (simp add: proceedWithNewAnalysis_begin_def sec_other_filing_fields analysis_sessionId_def
        session1_def truthy_def)
  have "requests
        (startAnalysis_begin
          (proceedWithNewAnalysis_resume sec_other_filing (HttpOk (JsonBody ()))
            (startAnalysis_begin
              (proceedWithNewAnalysis_resume sec_other_filing (HttpOk (JsonBody ()))
                (proceedWithNewAnalysis_begin (proceedWithNewAnalysis_begin sec_other_filing))))))
     = [EndSession ''S1'', EndSession ''S1'',
        StartAnalysis ''ACME'' ''Acme Corp'' ''0002-24'',
        StartAnalysis ''ACME'' ''Acme Corp'' ''0002-24'']"
    by (simp add: startAnalysis_begin_after_resume [OF co f] twice acme_def filing2_def)
  with twice show ?thesis
    by blast
qed

end
